theory Spec2Isabelle
  imports Complex_Main "HOL-Library.Sublist" "HOL-Library.Log_Nat"
begin

section \<open>Values exchanged with the backend\<close>

text \<open>
  The three dashboards (\<^verbatim>\<open>src/app/home/index.tsx\<close>, \<^verbatim>\<open>src/app/yahoo-dataset/index.tsx\<close>
  and the unnamed variant \<^verbatim>\<open>part_000\<close>) keep whatever \<^verbatim>\<open>response.json()\<close> returns, without
  validation, so a stored payload is an arbitrary JSON value. Strings are lists of 8-bit
  characters, read as the code units U+0000 .. U+00FF; numbers are the exact rational
  values of finite binary64 numbers (NaN, the infinities and the negative zero cannot be
  written in the model). An object is the list of its members in insertion order, with
  distinct names, as \<^verbatim>\<open>JSON.parse\<close> builds it.
\<close>

datatype json =
    JNull
  | JBool bool
  | JNum rat
  | JStr string
  | JArr "json list"
  | JObj "(string \<times> json) list"

text \<open>
  What a \<^verbatim>\<open>catch (err)\<close> receives: an \<^verbatim>\<open>Error\<close> (or a subclass such as
  \<^verbatim>\<open>TypeError\<close>, \<^verbatim>\<open>SyntaxError\<close>) with its message, or a value that is not
  an instance of \<^verbatim>\<open>Error\<close>.
\<close>

datatype thrown = Error string | NonError

text \<open>
  A settled \<^verbatim>\<open>Response\<close>: its \<^verbatim>\<open>ok\<close> flag (status in 200..299) and what awaiting
  \<^verbatim>\<open>response.json()\<close> gives, the parsed body or the exception of a body that is not JSON.
\<close>

record response =
  ok :: bool
  json_body :: "thrown + json"

record request =
  url :: string
  http_method :: string
  headers :: "(string \<times> string) list"
  mode :: "string option"
  credentials :: "string option"
  body :: "string option"

text \<open>
  The network answers a request by rejecting the promise of \<^verbatim>\<open>fetch\<close> (\<open>Inl\<close>) or by
  resolving it with a response.
\<close>

type_synonym network = "request \<Rightarrow> thrown + response"

text \<open>
  A \<^verbatim>\<open>Date\<close> object, as far as dates without a time of day need it: the invalid date
  (time value NaN), the midnight that begins a calendar day in UTC, or the midnight that
  begins it in the local time zone.
\<close>

datatype js_date = InvalidDate | UTCDate int nat nat | LocalDate int nat nat

text \<open>
  What the host (engine, locale, time zone) decides and the repository does not: the
  message of the \<^verbatim>\<open>TypeError\<close> raised when a property of \<^verbatim>\<open>null\<close> is read, the
  shortest digits that identify a positive number (ECMAScript leaves the choice among
  several shortest digit strings to the implementation), the locale's decimal separator,
  minus sign and grouping of an integer digit string, whether the local time zone is
  behind UTC, the locale's rendering of a calendar date (year, month, day), and what the
  engine's fallback date parser makes of a string that is not in the ECMAScript date-time
  format.

  \<open>shortest_digits h x = (s, n)\<close> for a positive \<open>x\<close>: the number is written with the
  decimal digits of \<open>s\<close>, the decimal point after the \<open>n\<close>-th of them (before the first
  when \<open>n\<close> is 0, further to the left when it is negative, to the right of the last, with
  zeros in between, when \<open>n\<close> exceeds their number). These are the \<open>s\<close> and \<open>n\<close> of
  \<^verbatim>\<open>Number::toString\<close>, and the decimal that \<^verbatim>\<open>Intl.NumberFormat\<close> rounds.
\<close>

record host =
  null_read_message :: "string \<Rightarrow> string"
  shortest_digits :: "rat \<Rightarrow> nat \<times> int"
  loc_decimal :: string
  loc_minus :: string
  loc_group :: "string \<Rightarrow> string"
  behind_utc :: bool
  loc_date :: "int \<Rightarrow> nat \<Rightarrow> nat \<Rightarrow> string"
  legacy_date :: "string \<Rightarrow> js_date"

subsection \<open>Decimal digits\<close>

definition digit_char :: "nat \<Rightarrow> char" where
  "digit_char d = char_of (48 + d)"

fun show_nat :: "nat \<Rightarrow> string" where
  "show_nat n = (if n < 10 then [digit_char n] else show_nat (n div 10) @ [digit_char (n mod 10)])"

declare show_nat.simps [simp del]

text \<open>
  \<^verbatim>\<open>Number::toString\<close> in radix 10. With \<open>k\<close> the number of digits of \<open>s\<close>: the digits
  followed by \<open>n - k\<close> zeros when \<open>k \<le> n \<le> 21\<close>; the digits with a point after the
  \<open>n\<close>-th when \<open>0 < n \<le> 21\<close>; \<^verbatim>\<open>0.\<close>, \<open>-n\<close> zeros and the digits when \<open>-6 < n \<le> 0\<close>;
  the exponential notation otherwise. Zero is \<^verbatim>\<open>0\<close>; a negative number is the minus
  sign and the conversion of its magnitude.
\<close>

definition exponent_part :: "int \<Rightarrow> string" where
  "exponent_part e = ''e'' @ (if e < 0 then ''-'' else ''+'') @ show_nat (nat \<bar>e\<bar>)"

definition Number_toString :: "host \<Rightarrow> rat \<Rightarrow> string" where
  "Number_toString h x =
     (if x = 0 then ''0''
      else (let (s, n) = shortest_digits h \<bar>x\<bar>;
                ds = show_nat s;
                k = int (length ds)
            in (if x < 0 then ''-'' else '''') @
               (if k \<le> n \<and> n \<le> 21 then ds @ replicate (nat (n - k)) CHR ''0''
                else if 0 < n \<and> n \<le> 21 then take (nat n) ds @ ''.'' @ drop (nat n) ds
                else if - 6 < n \<and> n \<le> 0 then ''0.'' @ replicate (nat (- n)) CHR ''0'' @ ds
                else if k = 1 then ds @ exponent_part (n - 1)
                else take 1 ds @ ''.'' @ drop 1 ds @ exponent_part (n - 1))))"

subsection \<open>Conversions of the language\<close>

text \<open>\<^verbatim>\<open>ToBoolean\<close>: what \<^verbatim>\<open>||\<close>, \<^verbatim>\<open>&&\<close> and \<^verbatim>\<open>if\<close> test.\<close>

fun truthy :: "json \<Rightarrow> bool" where
  "truthy JNull = False"
| "truthy (JBool b) = b"
| "truthy (JNum x) = (x \<noteq> 0)"
| "truthy (JStr s) = (s \<noteq> [])"
| "truthy (JArr xs) = True"
| "truthy (JObj kvs) = True"

fun join_with :: "string \<Rightarrow> string list \<Rightarrow> string" where
  "join_with sep [] = []"
| "join_with sep [x] = x"
| "join_with sep (x # y # ys) = x @ sep @ join_with sep (y # ys)"

text \<open>
  \<^verbatim>\<open>ToString\<close>, which \<^verbatim>\<open>new Error(v)\<close> applies to its argument: an array is the
  comma-joined conversion of its elements, with \<^verbatim>\<open>null\<close> elements empty; a plain object
  is \<^verbatim>\<open>[object Object]\<close>.
\<close>

fun ToString :: "host \<Rightarrow> json \<Rightarrow> string" where
  "ToString h JNull = ''null''"
| "ToString h (JBool b) = (if b then ''true'' else ''false'')"
| "ToString h (JNum x) = Number_toString h x"
| "ToString h (JStr s) = s"
| "ToString h (JArr xs) = join_with '','' (map (\<lambda>e. if e = JNull then [] else ToString h e) xs)"
| "ToString h (JObj kvs) = ''[object Object]''"

text \<open>
  \<^verbatim>\<open>errorData.detail\<close>: reading a property of \<^verbatim>\<open>null\<close> throws; an object gives the
  member or \<^verbatim>\<open>undefined\<close> (\<open>None\<close>); booleans, numbers, strings and arrays have no
  property of that name.
\<close>

fun get_detail :: "host \<Rightarrow> json \<Rightarrow> thrown + json option" where
  "get_detail h JNull = Inl (Error (null_read_message h ''detail''))"
| "get_detail h (JObj kvs) = Inr (map_of kvs ''detail'')"
| "get_detail h v = Inr None"

text \<open>\<^verbatim>\<open>v || fallback\<close> for a possibly undefined \<open>v\<close>.\<close>

definition or_else :: "json option \<Rightarrow> json \<Rightarrow> json" where
  "or_else v d = (case v of None \<Rightarrow> d | Some w \<Rightarrow> if truthy w then w else d)"

text \<open>\<^verbatim>\<open>err instanceof Error ? err.message : "An error occurred"\<close>\<close>

definition error_message :: "thrown \<Rightarrow> string" where
  "error_message err = (case err of Error m \<Rightarrow> m | NonError \<Rightarrow> ''An error occurred'')"

section \<open>The form and its requests\<close>

text \<open>\<^verbatim>\<open>interface FormData\<close> of the combined dashboard and of the unnamed variant.\<close>

record FormData =
  base_currency :: string
  quote_currency :: string
  timeframe :: string
  period :: string
  api_key :: string

text \<open>\<^verbatim>\<open>interface FormData\<close> of the yahoo-dataset dashboard.\<close>

record FormData_yahoo =
  symbol :: string
  timeframe :: string
  period :: string

subsection \<open>\<^verbatim>\<open>JSON.stringify\<close> of an object of strings\<close>

definition hex_char :: "nat \<Rightarrow> char" where
  "hex_char d = (if d < 10 then char_of (48 + d) else char_of (87 + d))"

text \<open>
  \<^verbatim>\<open>QuoteJSONString\<close>: the two-character escapes of backspace, tab, line feed, form feed,
  carriage return, the quotation mark and the backslash; \<^verbatim>\<open>\u00xx\<close> for the other code
  units below the space; every other code unit as it is.
\<close>

definition escape_char :: "char \<Rightarrow> string" where
  "escape_char c =
     (let n = (of_char c :: nat) in
      if n = 8 then [CHR 0x5C, CHR ''b'']
      else if n = 9 then [CHR 0x5C, CHR ''t'']
      else if n = 10 then [CHR 0x5C, CHR ''n'']
      else if n = 12 then [CHR 0x5C, CHR ''f'']
      else if n = 13 then [CHR 0x5C, CHR ''r'']
      else if n = 34 then [CHR 0x5C, CHR 0x22]
      else if n = 92 then [CHR 0x5C, CHR 0x5C]
      else if n < 32 then [CHR 0x5C, CHR ''u'', CHR ''0'', CHR ''0'', hex_char (n div 16), hex_char (n mod 16)]
      else [c])"

definition QuoteJSONString :: "string \<Rightarrow> string" where
  "QuoteJSONString s = [CHR 0x22] @ concat (map escape_char s) @ [CHR 0x22]"

definition stringify_member :: "string \<times> string \<Rightarrow> string" where
  "stringify_member kv = QuoteJSONString (fst kv) @ '':'' @ QuoteJSONString (snd kv)"

definition stringify_object :: "(string \<times> string) list \<Rightarrow> string" where
  "stringify_object kvs = ''{'' @ join_with '','' (map stringify_member kvs) @ ''}''"

text \<open>\<^verbatim>\<open>JSON.stringify(formData)\<close>: the members in the order of the object literal.\<close>

definition JSON_stringify :: "FormData \<Rightarrow> string" where
  "JSON_stringify fd = stringify_object
     [(''base_currency'', base_currency fd),
      (''quote_currency'', quote_currency fd),
      (''timeframe'', FormData.timeframe fd),
      (''period'', FormData.period fd),
      (''api_key'', api_key fd)]"

definition JSON_stringify_yahoo :: "FormData_yahoo \<Rightarrow> string" where
  "JSON_stringify_yahoo fd = stringify_object
     [(''symbol'', symbol fd),
      (''timeframe'', FormData_yahoo.timeframe fd),
      (''period'', FormData_yahoo.period fd)]"

subsection \<open>The requests of the three dashboards\<close>

text \<open>The prediction POST of \<^verbatim>\<open>home/index.tsx\<close> and of the unnamed variant (the same call).\<close>

definition predict_request :: "FormData \<Rightarrow> request" where
  "predict_request fd =
     \<lparr>url = ''https://portal2.incoe.astra.co.id/api-analysis/predict'',
      http_method = ''POST'',
      headers = [(''Content-Type'', ''application/json''), (''Accept'', ''application/json'')],
      mode = Some ''cors'',
      credentials = Some ''same-origin'',
      body = Some (JSON_stringify fd)\<rparr>"

text \<open>The prediction POST of \<^verbatim>\<open>yahoo-dataset/index.tsx\<close>.\<close>

definition predict_request_yahoo :: "FormData_yahoo \<Rightarrow> request" where
  "predict_request_yahoo fd =
     \<lparr>url = ''https://portal2.incoe.astra.co.id/api-analysis-yahoo/predict'',
      http_method = ''POST'',
      headers = [(''Content-Type'', ''application/json'')],
      mode = None,
      credentials = None,
      body = Some (JSON_stringify_yahoo fd)\<rparr>"

text \<open>\<^verbatim>\<open>fetch(url)\<close> with no options: a GET without headers or body.\<close>

definition get_request :: "string \<Rightarrow> request" where
  "get_request u = \<lparr>url = u, http_method = ''GET'', headers = [], mode = None, credentials = None, body = None\<rparr>"

definition movers_request :: "string \<Rightarrow> request" where
  "movers_request apiKey =
     get_request (''https://portal2.incoe.astra.co.id/api-analysis/market-movers?api_key='' @ apiKey)"

definition movers_request_yahoo :: request where
  "movers_request_yahoo = get_request ''https://portal2.incoe.astra.co.id/api-analysis-yahoo/market-movers''"

definition news_request_yahoo :: "FormData_yahoo \<Rightarrow> request" where
  "news_request_yahoo fd =
     get_request (''https://portal2.incoe.astra.co.id/api-analysis-yahoo/news?symbol='' @ symbol fd)"

section \<open>The payload interfaces\<close>

text \<open>
  The TypeScript interfaces the components are typed with. A payload that follows its
  interface is read through these records; nothing checks that it does.
\<close>

record ForecastPoint =
  date :: string
  predicted_price :: rat
  prediction_interval_low :: rat
  prediction_interval_high :: rat
  direction :: string
  probability :: rat

record TechnicalIndicators =
  rsi :: rat
  rsi_signal :: string
  macd :: rat
  macd_signal :: string
  stochastic :: rat
  stochastic_signal :: string
  adx :: rat
  trend_strength :: string
  atr :: rat
  mfi :: rat

record PredictionData =
  prediction :: string
  probability_up :: rat
  probability_down :: rat
  current_price :: rat
  technical_indicators :: TechnicalIndicators
  accuracy :: rat
  plot_base64 :: string
  forecast :: "ForecastPoint list"


section \<open>Numbers\<close>

subsection \<open>Binary64 multiplication\<close>

text \<open>
  \<open>\<lfloor>log\<^sub>2 x\<rfloor>\<close> of a positive rational \<open>a / b\<close>, from the bit lengths of \<open>a\<close> and \<open>b\<close>:
  their difference \<open>d\<close> satisfies \<open>2\<^sup>d\<^sup>-\<^sup>1 < a / b < 2\<^sup>d\<^sup>+\<^sup>1\<close>.
\<close>

definition ilog2 :: "rat \<Rightarrow> int" where
  "ilog2 x =
     (let (a, b) = quotient_of x; d = bitlen a - bitlen b
      in if 2 powi d \<le> x then d else d - 1)"

text \<open>The nearest integer, a tie going to the even one.\<close>

definition round_half_even :: "rat \<Rightarrow> int" where
  "round_half_even q =
     (let n = \<lfloor>q\<rfloor>; r = q - of_int n
      in if r < 1 / 2 then n else if 1 / 2 < r then n + 1 else if even n then n else n + 1)"

text \<open>
  The binary64 value nearest to a rational (round to nearest, ties to even): 53
  significant bits, the exponent not below that of the subnormal numbers. Results beyond
  the largest finite binary64 value are outside the model.
\<close>

definition fl :: "rat \<Rightarrow> rat" where
  "fl x =
     (if x = 0 then 0
      else (let u = 2 powi (max (ilog2 \<bar>x\<bar>) (- 1022) - 52)
            in sgn x * of_int (round_half_even (\<bar>x\<bar> / u)) * u))"

text \<open>The operator \<^verbatim>\<open>*\<close> on two numbers.\<close>

definition Number_mul :: "rat \<Rightarrow> rat \<Rightarrow> rat" where
  "Number_mul x y = fl (x * y)"

subsection \<open>The digits of \<^verbatim>\<open>Number::toString\<close>\<close>

text \<open>
  The digits as ECMAScript recommends them and V8, SpiderMonkey and JavaScriptCore produce
  them: the fewest digits \<open>k\<close> for which some \<open>s\<close> of \<open>k\<close> digits with the point after the
  \<open>n\<close>-th converts back to the number; among several such \<open>s\<close> the one whose value is
  closest to the number, the even one on a tie. Seventeen digits identify every binary64
  number.

  \<open>ilog10 x\<close> is the exponent of the leading decimal digit of a positive \<open>x\<close> in the
  binary64 range, found from the binary exponent.
\<close>

definition ilog10 :: "rat \<Rightarrow> int" where
  "ilog10 x =
     (let c = ilog2 x * 30103 div 100000
      in if 10 powi (c + 1) \<le> x then c + 1 else if 10 powi c \<le> x then c else c - 1)"

text \<open>
  With \<open>e = ilog10 x\<close>, the candidates with \<open>k\<close> digits are the two multiples of
  \<open>10 powi (e + 1 - k)\<close> around the number.
\<close>

definition digits_candidate :: "rat \<Rightarrow> int \<Rightarrow> nat \<Rightarrow> int option" where
  "digits_candidate x e k =
     (let q = 10 powi (e + 1 - int k);
          lo = \<lfloor>x / q\<rfloor>;
          hi = lo + 1;
          vl = (fl (of_int lo * q) = x);
          vh = (fl (of_int hi * q) = x)
      in if vl \<and> vh then
           (let dl = x - of_int lo * q; dh = of_int hi * q - x
            in if dl < dh then Some lo else if dh < dl then Some hi
               else if even lo then Some lo else Some hi)
         else if vl then Some lo
         else if vh then Some hi
         else None)"

text \<open>The first \<open>k\<close>, counting up, that has a candidate; \<open>f\<close> bounds the search.\<close>

fun search_digits :: "rat \<Rightarrow> int \<Rightarrow> nat \<Rightarrow> nat \<Rightarrow> int \<times> nat" where
  "search_digits x e 0 k = (\<lfloor>x / 10 powi (e + 1 - int k)\<rfloor>, k)"
| "search_digits x e (Suc f) k =
     (case digits_candidate x e k of
        Some s \<Rightarrow> (s, k)
      | None \<Rightarrow> search_digits x e f (Suc k))"

text \<open>Trailing zeros are not digits of \<open>s\<close> (the upper candidate may be a power of ten).\<close>

fun strip10 :: "nat \<Rightarrow> int \<Rightarrow> int" where
  "strip10 0 s = s"
| "strip10 (Suc f) s = (if s \<noteq> 0 \<and> s mod 10 = 0 then strip10 f (s div 10) else s)"

definition ecma_digits :: "rat \<Rightarrow> int \<times> int" where
  "ecma_digits x =
     (let e = ilog10 x;
          (s, k) = search_digits x e 17 1
      in (strip10 17 s, e + 1 + (if s = 10 ^ k then 1 else 0)))"

subsection \<open>\<^verbatim>\<open>Number.prototype.toFixed\<close>\<close>

text \<open>
  For \<open>f\<close> fraction digits (at most 100): the sign, then, for a magnitude below
  \<open>10\<^sup>2\<^sup>1\<close>, the digits of the integer \<open>n\<close> for which \<open>n / 10\<^sup>f\<close> is nearest to the
  magnitude (the larger \<open>n\<close> on a tie), padded with zeros on the left to \<open>f + 1\<close> digits
  and split by a point before the last \<open>f\<close>. Larger magnitudes go through
  \<^verbatim>\<open>Number::toString\<close>.
\<close>

definition fraction_point :: "nat \<Rightarrow> string \<Rightarrow> string" where
  "fraction_point f m =
     (if f \<noteq> 0 then
        (let m = (if length m \<le> f then replicate (f + 1 - length m) CHR ''0'' @ m else m);
             k = length m
         in take (k - f) m @ ''.'' @ drop (k - f) m)
      else m)"

definition toFixed :: "host \<Rightarrow> nat \<Rightarrow> rat \<Rightarrow> string" where
  "toFixed h f x =
     (let s = (if x < 0 then ''-'' else '''');
          x = \<bar>x\<bar>
      in if 10 ^ 21 \<le> x then s @ Number_toString h x
         else s @ fraction_point f (show_nat (nat \<lfloor>x * 10 ^ f + 1 / 2\<rfloor>)))"

subsection \<open>\<^verbatim>\<open>Number.prototype.toLocaleString\<close>\<close>

text \<open>Trailing zeros of a fraction are dropped while more than \<open>mn\<close> digits remain.\<close>

definition strip_zeros :: "nat \<Rightarrow> string \<Rightarrow> string" where
  "strip_zeros mn fr =
     take (max mn (length fr - length (takeWhile (\<lambda>c. c = CHR ''0'') (rev fr)))) fr"

text \<open>
  The decimal a number is written as: the magnitude \<open>s * 10 powi (n - k)\<close> that its
  shortest digits denote.
\<close>

definition shortest_decimal :: "host \<Rightarrow> rat \<Rightarrow> rat" where
  "shortest_decimal h x =
     (if x = 0 then 0
      else (let (s, n) = shortest_digits h \<bar>x\<bar>
            in of_nat s * 10 powi (n - int (length (show_nat s)))))"

text \<open>
  The decimal style of \<^verbatim>\<open>Intl.NumberFormat\<close> with \<open>mn\<close> to \<open>mx\<close> fraction digits
  (\<^verbatim>\<open>minimumFractionDigits\<close>, \<^verbatim>\<open>maximumFractionDigits\<close>), Latin digits, as the engines
  implement it on ICU: the decimal the number is written as (not its exact binary value)
  is rounded to \<open>mx\<close> fraction digits, a tie away from zero; the integer digits are
  grouped as the locale groups them; the fraction follows the locale's decimal separator
  when it is not empty; a negative number has the locale's minus sign in front.
\<close>

definition toLocaleString :: "host \<Rightarrow> nat \<Rightarrow> nat \<Rightarrow> rat \<Rightarrow> string" where
  "toLocaleString h mn mx x =
     (let n = nat \<lfloor>shortest_decimal h x * 10 ^ mx + 1 / 2\<rfloor>;
          ip = show_nat (n div 10 ^ mx);
          fr = show_nat (n mod 10 ^ mx);
          fr = strip_zeros mn (replicate (mx - length fr) CHR ''0'' @ fr)
      in (if x < 0 then loc_minus h else []) @ loc_group h ip
         @ (if fr = [] then [] else loc_decimal h @ fr))"

text \<open>
  \<^verbatim>\<open>x.toLocaleString()\<close> has the defaults of the decimal style, no fraction digit
  required and at most three; the forecast table passes two and two.
\<close>

definition toLocaleString_default :: "host \<Rightarrow> rat \<Rightarrow> string" where
  "toLocaleString_default h x = toLocaleString h 0 3 x"

section \<open>Strings\<close>

text \<open>\<^verbatim>\<open>String.prototype.toLowerCase\<close> on the code units U+0000 .. U+00FF.\<close>

definition toLowerCase_char :: "char \<Rightarrow> char" where
  "toLowerCase_char c =
     (let n = (of_char c :: nat)
      in if (65 \<le> n \<and> n \<le> 90) \<or> (192 \<le> n \<and> n \<le> 222 \<and> n \<noteq> 215) then char_of (n + 32) else c)"

definition toLowerCase :: "string \<Rightarrow> string" where
  "toLowerCase s = map toLowerCase_char s"

text \<open>
  \<^verbatim>\<open>s.includes(t)\<close>: the search tries every start position of \<open>s\<close> from the left.
\<close>

fun String_includes :: "string \<Rightarrow> string \<Rightarrow> bool" where
  "String_includes [] t = (t = [])"
| "String_includes (c # s) t = (prefix t (c # s) \<or> String_includes s t)"

text \<open>\<^verbatim>\<open>s.substring(a, b)\<close> for indices that are natural numbers.\<close>

definition substring :: "string \<Rightarrow> nat \<Rightarrow> nat \<Rightarrow> string" where
  "substring s a b =
     (let a = min a (length s); b = min b (length s)
      in take (max a b - min a b) (drop (min a b) s))"

section \<open>Dates\<close>

definition is_digit :: "char \<Rightarrow> bool" where
  "is_digit c = (48 \<le> (of_char c :: nat) \<and> (of_char c :: nat) \<le> 57)"

fun digits_value :: "string \<Rightarrow> nat" where
  "digits_value [] = 0"
| "digits_value (c # cs) = ((of_char c :: nat) - 48) * 10 ^ length cs + digits_value cs"

definition leap_year :: "int \<Rightarrow> bool" where
  "leap_year y = (y mod 4 = 0 \<and> (y mod 100 \<noteq> 0 \<or> y mod 400 = 0))"

definition days_in_month :: "int \<Rightarrow> nat \<Rightarrow> nat" where
  "days_in_month y m =
     (if m = 2 then (if leap_year y then 29 else 28)
      else if m = 4 \<or> m = 6 \<or> m = 9 \<or> m = 11 then 30 else 31)"

text \<open>
  The date-only form \<^verbatim>\<open>YYYY-MM-DD\<close> of the ECMAScript date-time string format: ten
  characters, digits around two hyphens, a month from 01 to 12 and a day of that month.
\<close>

definition iso_date :: "string \<Rightarrow> (int \<times> nat \<times> nat) option" where
  "iso_date s =
     (if length s = 10 \<and> s ! 4 = CHR ''-'' \<and> s ! 7 = CHR ''-''
         \<and> list_all is_digit (take 4 s) \<and> list_all is_digit (take 2 (drop 5 s))
         \<and> list_all is_digit (drop 8 s)
      then (let y = int (digits_value (take 4 s));
                m = digits_value (take 2 (drop 5 s));
                d = digits_value (drop 8 s)
            in if 1 \<le> m \<and> m \<le> 12 \<and> 1 \<le> d \<and> d \<le> days_in_month y m then Some (y, m, d) else None)
      else None)"

text \<open>
  \<^verbatim>\<open>new Date(s)\<close> for a string: a date-only string is the midnight that begins the day
  in UTC; any other string is left to the engine's fallback parser. The constructor does
  not throw.
\<close>

definition Date_new :: "host \<Rightarrow> string \<Rightarrow> js_date" where
  "Date_new h s = (case iso_date s of Some (y, m, d) \<Rightarrow> UTCDate y m d | None \<Rightarrow> legacy_date h s)"

definition previous_day :: "int \<Rightarrow> nat \<Rightarrow> nat \<Rightarrow> int \<times> nat \<times> nat" where
  "previous_day y m d =
     (if 1 < d then (y, m, d - 1)
      else if 1 < m then (y, m - 1, days_in_month y (m - 1))
      else (y - 1, 12, 31))"

text \<open>
  \<^verbatim>\<open>Date.prototype.toLocaleDateString()\<close>: the text \<^verbatim>\<open>Invalid Date\<close> for an invalid
  date (it does not throw), otherwise the locale's rendering of the calendar day the
  instant falls on in the local time zone. Midnight UTC falls on the day before in a
  zone behind UTC.
\<close>

definition toLocaleDateString :: "host \<Rightarrow> js_date \<Rightarrow> thrown + string" where
  "toLocaleDateString h t =
     (case t of
        InvalidDate \<Rightarrow> Inr ''Invalid Date''
      | LocalDate y m d \<Rightarrow> Inr (loc_date h y m d)
      | UTCDate y m d \<Rightarrow>
          if behind_utc h then (case previous_day y m d of (y', m', d') \<Rightarrow> Inr (loc_date h y' m' d'))
          else Inr (loc_date h y m d))"

section \<open>Rendering\<close>

text \<open>
  What a component puts on the page, as far as the properties below need it: an icon
  component with its class, or a \<^verbatim>\<open>span\<close> with its class and its text.
\<close>

datatype icon = ArrowUp | ArrowDown | TrendingUp | TrendingDown | ChevronUp | ChevronDown

datatype node = Icon icon string | Span string string

subsection \<open>\<^verbatim>\<open>IndicatorCard\<close>\<close>

text \<open>The class chosen by the nested conditional of the signal badge.\<close>

definition signal_class :: "string \<Rightarrow> string" where
  "signal_class signal =
     (if String_includes (toLowerCase signal) ''bull'' \<or> String_includes (toLowerCase signal) ''strong''
         \<or> signal = ''Overbought''
      then ''bg-green-100 text-green-800''
      else if String_includes (toLowerCase signal) ''bear'' \<or> String_includes (toLowerCase signal) ''weak''
         \<or> signal = ''Oversold''
      then ''bg-red-100 text-red-800''
      else ''bg-gray-100 text-gray-800'')"

text \<open>
  \<^verbatim>\<open>{signal && (<span ...>{signal}</span>)}\<close>: no badge for an absent (\<open>None\<close>) or empty
  signal.
\<close>

definition IndicatorCard_badge :: "string option \<Rightarrow> node option" where
  "IndicatorCard_badge signal =
     (case signal of
        None \<Rightarrow> None
      | Some s \<Rightarrow>
          if s = [] then None
          else Some (Span (''text-sm font-medium px-2 py-1 rounded '' @ signal_class s) s))"

subsection \<open>\<^verbatim>\<open>ForecastTable\<close> and the forecast table of the yahoo-dataset dashboard\<close>




text \<open>The direction cell of the combined dashboard and of the unnamed variant.\<close>

definition ForecastTable_direction :: "ForecastPoint \<Rightarrow> node list" where
  "ForecastTable_direction point =
     [if direction point = ''UP'' then Icon ArrowUp ''text-green-500'' else Icon ArrowDown ''text-red-500'',
      Span (''ml-1 '' @ (if direction point = ''UP'' then ''text-green-600'' else ''text-red-600''))
           (direction point)]"

text \<open>The direction cell of the yahoo-dataset dashboard: the icon alone.\<close>

definition ForecastTable_direction_yahoo :: "ForecastPoint \<Rightarrow> node list" where
  "ForecastTable_direction_yahoo point =
     [if direction point = ''UP'' then Icon ArrowUp ''text-green-500'' else Icon ArrowDown ''text-red-500'']"

definition ForecastTable_confidence :: "host \<Rightarrow> ForecastPoint \<Rightarrow> string" where
  "ForecastTable_confidence h point = toFixed h 1 (Number_mul (probability point) 100) @ ''%''"

subsection \<open>The prediction card of \<^verbatim>\<open>CryptoPrediction\<close> (the same in the three files)\<close>

definition CryptoPrediction_direction :: "PredictionData \<Rightarrow> node list" where
  "CryptoPrediction_direction p =
     [if prediction p = ''UP'' then Icon TrendingUp ''h-6 w-6 text-green-500 mr-2''
      else Icon TrendingDown ''h-6 w-6 text-red-500 mr-2'',
      Span (''text-2xl font-bold '' @ (if prediction p = ''UP'' then ''text-green-600'' else ''text-red-600''))
           (prediction p)]"


definition CryptoPrediction_upward :: "host \<Rightarrow> PredictionData \<Rightarrow> string" where
  "CryptoPrediction_upward h p = toFixed h 1 (Number_mul (probability_up p) 100) @ ''%''"

definition CryptoPrediction_downward :: "host \<Rightarrow> PredictionData \<Rightarrow> string" where
  "CryptoPrediction_downward h p = toFixed h 1 (Number_mul (probability_down p) 100) @ ''%''"

definition CryptoPrediction_accuracy :: "host \<Rightarrow> PredictionData \<Rightarrow> string" where
  "CryptoPrediction_accuracy h p =
     toFixed h 1 (Number_mul (accuracy p) 100) @ ''% accuracy on historical predictions''"

subsection \<open>Market movers\<close>



subsection \<open>\<^verbatim>\<open>NewsCard\<close> of the combined dashboard\<close>

text \<open>The \<^verbatim>\<open>try\<close> block of \<^verbatim>\<open>formatDate\<close>.\<close>

definition formatDate_try :: "host \<Rightarrow> string \<Rightarrow> thrown + string" where
  "formatDate_try h dateString =
     (let year = substring dateString 0 4;
          month = substring dateString 4 6;
          day = substring dateString 6 8
      in toLocaleDateString h (Date_new h (year @ ''-'' @ month @ ''-'' @ day)))"

definition formatDate :: "host \<Rightarrow> string \<Rightarrow> string" where
  "formatDate h dateString =
     (if dateString = [] \<or> length dateString < 8 then ''N/A''
      else (case formatDate_try h dateString of Inr s \<Rightarrow> s | Inl e \<Rightarrow> dateString))"

section \<open>Component state and the submit handlers\<close>

text \<open>
  The \<^verbatim>\<open>useState\<close> slots. \<^verbatim>\<open>null\<close> payloads are \<open>JNull\<close>, the \<^verbatim>\<open>null\<close> error is
  \<open>None\<close>. The unnamed variant has the first three slots; the yahoo-dataset dashboard adds
  \<open>marketMovers\<close> and \<open>news\<close>; the combined dashboard adds \<open>marketMovers\<close>,
  \<open>newsSentiment\<close> and the two secondary loading flags.
\<close>

record dashboard_state =
  prediction :: json
  loading :: bool
  error :: "string option"

record movers_state = dashboard_state +
  marketMovers :: json

record yahoo_state = movers_state +
  news :: json

record home_state = movers_state +
  newsSentiment :: json
  marketLoading :: bool
  newsLoading :: bool

text \<open>
  The part of the \<^verbatim>\<open>try\<close> block the three handlers share, from \<^verbatim>\<open>await fetch\<close> to
  \<^verbatim>\<open>const data = await response.json()\<close>: the parsed body, or what is thrown.
  On a response that is not ok the body is parsed, its \<^verbatim>\<open>detail\<close> is read and
  \<^verbatim>\<open>new Error(errorData.detail || "Failed to fetch prediction")\<close> is thrown.
\<close>

definition post_prediction :: "host \<Rightarrow> network \<Rightarrow> request \<Rightarrow> thrown + json" where
  "post_prediction h net req =
     (case net req of
        Inl err \<Rightarrow> Inl err
      | Inr resp \<Rightarrow>
          if \<not> ok resp then
            (case json_body resp of
               Inl err \<Rightarrow> Inl err
             | Inr errorData \<Rightarrow>
                 (case get_detail h errorData of
                    Inl err \<Rightarrow> Inl err
                  | Inr d \<Rightarrow> Inl (Error (ToString h (or_else d (JStr ''Failed to fetch prediction''))))))
          else json_body resp)"

text \<open>The two \<^verbatim>\<open>setState\<close> calls before the first \<^verbatim>\<open>await\<close>.\<close>

definition submit_begin :: "'a dashboard_state_scheme \<Rightarrow> 'a dashboard_state_scheme" where
  "submit_begin st = st\<lparr>loading := True, error := None\<rparr>"

text \<open>The \<^verbatim>\<open>catch\<close> block of the handlers and of \<^verbatim>\<open>fetchMarketMovers\<close>.\<close>

definition catch_error :: "thrown \<Rightarrow> 'a dashboard_state_scheme \<Rightarrow> 'a dashboard_state_scheme" where
  "catch_error err st = st\<lparr>error := Some (error_message err)\<rparr>"

text \<open>\<^verbatim>\<open>handleSubmit\<close> of the unnamed variant, from the submission to the settled state.\<close>

definition handleSubmit_plain ::
  "host \<Rightarrow> network \<Rightarrow> FormData \<Rightarrow> 'a dashboard_state_scheme \<Rightarrow> 'a dashboard_state_scheme" where
  "handleSubmit_plain h net formData st =
     (let st1 = submit_begin st;
          st2 = (case post_prediction h net (predict_request formData) of
                   Inr data \<Rightarrow> st1\<lparr>prediction := data\<rparr>
                 | Inl err \<Rightarrow> catch_error err st1)
      in st2\<lparr>loading := False\<rparr>)"

text \<open>
  \<^verbatim>\<open>fetchMarketMovers\<close> of the combined dashboard, in its two halves: up to the
  \<^verbatim>\<open>await fetch\<close>, and from the settled fetch to the end of \<^verbatim>\<open>finally\<close>.
\<close>

definition fetchMarketMovers_begin :: "home_state \<Rightarrow> home_state" where
  "fetchMarketMovers_begin st = st\<lparr>marketLoading := True\<rparr>"

definition fetchMarketMovers_settle :: "network \<Rightarrow> string \<Rightarrow> home_state \<Rightarrow> home_state" where
  "fetchMarketMovers_settle net apiKey st =
     (let st1 = (case net (movers_request apiKey) of
                   Inl err \<Rightarrow> catch_error err st
                 | Inr resp \<Rightarrow>
                     if \<not> ok resp then catch_error (Error ''Failed to fetch market data'') st
                     else (case json_body resp of
                             Inl err \<Rightarrow> catch_error err st
                           | Inr data \<Rightarrow> st\<lparr>marketMovers := data\<rparr>))
      in st1\<lparr>marketLoading := False\<rparr>)"

text \<open>
  \<^verbatim>\<open>handleSubmit\<close> of the combined dashboard up to the end of its \<^verbatim>\<open>finally\<close>.
  \<^verbatim>\<open>fetchMarketMovers\<close> is called without \<^verbatim>\<open>await\<close>: its first half runs inside the
  \<^verbatim>\<open>try\<close> block, and the handler goes on to \<^verbatim>\<open>setLoading(false)\<close> while the GET is
  in flight. The result says whether the GET was issued.
\<close>

definition handleSubmit_home_post :: "host \<Rightarrow> network \<Rightarrow> FormData \<Rightarrow> home_state \<Rightarrow> bool \<times> home_state" where
  "handleSubmit_home_post h net formData st =
     (let st1 = submit_begin st;
          (issued, st2) =
             (case post_prediction h net (predict_request formData) of
                Inr data \<Rightarrow>
                  (let st2 = st1\<lparr>prediction := data\<rparr>
                   in if api_key formData \<noteq> [] then (True, fetchMarketMovers_begin st2)
                      else (False, st2))
              | Inl err \<Rightarrow> (False, catch_error err st1))
      in (issued, st2\<lparr>loading := False\<rparr>))"

text \<open>The state once every request of one submission has settled.\<close>

definition handleSubmit_home :: "host \<Rightarrow> network \<Rightarrow> FormData \<Rightarrow> home_state \<Rightarrow> home_state" where
  "handleSubmit_home h net formData st =
     (let (issued, st1) = handleSubmit_home_post h net formData st
      in if issued then fetchMarketMovers_settle net (api_key formData) st1 else st1)"

text \<open>
  \<^verbatim>\<open>handleSubmit\<close> of the yahoo-dataset dashboard. The two secondary GETs are awaited
  inside the same \<^verbatim>\<open>try\<close> block: a response that is not ok is passed over, an exception
  leaves the block. The result of the block is the state reached and what was thrown.
\<close>

definition yahoo_movers_step :: "network \<Rightarrow> yahoo_state \<Rightarrow> thrown option \<times> yahoo_state" where
  "yahoo_movers_step net st =
     (case net movers_request_yahoo of
        Inl err \<Rightarrow> (Some err, st)
      | Inr marketResponse \<Rightarrow>
          if ok marketResponse then
            (case json_body marketResponse of
               Inl err \<Rightarrow> (Some err, st)
             | Inr marketData \<Rightarrow> (None, st\<lparr>marketMovers := marketData\<rparr>))
          else (None, st))"

definition yahoo_news_step :: "network \<Rightarrow> FormData_yahoo \<Rightarrow> yahoo_state \<Rightarrow> thrown option \<times> yahoo_state" where
  "yahoo_news_step net formData st =
     (case net (news_request_yahoo formData) of
        Inl err \<Rightarrow> (Some err, st)
      | Inr newsResponse \<Rightarrow>
          if ok newsResponse then
            (case json_body newsResponse of
               Inl err \<Rightarrow> (Some err, st)
             | Inr newsData \<Rightarrow> (None, st\<lparr>news := newsData\<rparr>))
          else (None, st))"

definition yahoo_try :: "host \<Rightarrow> network \<Rightarrow> FormData_yahoo \<Rightarrow> yahoo_state \<Rightarrow> thrown option \<times> yahoo_state" where
  "yahoo_try h net formData st =
     (case post_prediction h net (predict_request_yahoo formData) of
        Inl err \<Rightarrow> (Some err, st)
      | Inr predictionData \<Rightarrow>
          (case yahoo_movers_step net (st\<lparr>prediction := predictionData\<rparr>) of
             (Some err, st1) \<Rightarrow> (Some err, st1)
           | (None, st1) \<Rightarrow> yahoo_news_step net formData st1))"

definition handleSubmit_yahoo :: "host \<Rightarrow> network \<Rightarrow> FormData_yahoo \<Rightarrow> yahoo_state \<Rightarrow> yahoo_state" where
  "handleSubmit_yahoo h net formData st =
     (let (thrown, st1) = yahoo_try h net formData (submit_begin st);
          st2 = (case thrown of Some err \<Rightarrow> catch_error err st1 | None \<Rightarrow> st1)
      in st2\<lparr>loading := False\<rparr>)"

subsection \<open>The handlers step by step\<close>

text \<open>
  What a handler does, in the order in which it does it: a call of a state setter, with
  the component state that results, or a call of \<^verbatim>\<open>fetch\<close>, with the request. The state
  of the last setter call is the state in which the handler leaves the component.
\<close>

datatype 's step = SetState 's | Fetch request

fun last_state :: "'s \<Rightarrow> 's step list \<Rightarrow> 's" where
  "last_state st [] = st"
| "last_state st (SetState s # steps) = last_state s steps"
| "last_state st (Fetch req # steps) = last_state st steps"

text \<open>
  \<^verbatim>\<open>handleSubmit\<close> of the unnamed variant: \<^verbatim>\<open>setLoading(true)\<close>, \<^verbatim>\<open>setError(null)\<close>,
  the \<^verbatim>\<open>fetch\<close> of the POST, then \<^verbatim>\<open>setPrediction(data)\<close> or the \<^verbatim>\<open>setError\<close> of the
  \<^verbatim>\<open>catch\<close> block, and the \<^verbatim>\<open>setLoading(false)\<close> of \<^verbatim>\<open>finally\<close>.
\<close>

definition handleSubmit_plain_steps ::
  "host \<Rightarrow> network \<Rightarrow> FormData \<Rightarrow> 'a dashboard_state_scheme \<Rightarrow> 'a dashboard_state_scheme step list" where
  "handleSubmit_plain_steps h net formData st =
     (let st1 = st\<lparr>loading := True\<rparr>;
          st2 = st1\<lparr>error := None\<rparr>;
          req = predict_request formData;
          st3 = (case post_prediction h net req of
                   Inr data \<Rightarrow> st2\<lparr>prediction := data\<rparr>
                 | Inl err \<Rightarrow> st2\<lparr>error := Some (error_message err)\<rparr>)
      in [SetState st1, SetState st2, Fetch req, SetState st3, SetState (st3\<lparr>loading := False\<rparr>)])"

text \<open>
  \<^verbatim>\<open>fetchMarketMovers\<close> from the settled GET on: \<^verbatim>\<open>setMarketMovers(data)\<close> or the
  \<^verbatim>\<open>setError\<close> of its \<^verbatim>\<open>catch\<close> block, and \<^verbatim>\<open>setMarketLoading(false)\<close>.
\<close>

definition fetchMarketMovers_steps :: "network \<Rightarrow> string \<Rightarrow> home_state \<Rightarrow> home_state step list" where
  "fetchMarketMovers_steps net apiKey st =
     (let st1 = (case net (movers_request apiKey) of
                   Inl err \<Rightarrow> st\<lparr>error := Some (error_message err)\<rparr>
                 | Inr resp \<Rightarrow>
                     if \<not> ok resp then st\<lparr>error := Some (error_message (Error ''Failed to fetch market data''))\<rparr>
                     else (case json_body resp of
                             Inl err \<Rightarrow> st\<lparr>error := Some (error_message err)\<rparr>
                           | Inr data \<Rightarrow> st\<lparr>marketMovers := data\<rparr>))
      in [SetState st1, SetState (st1\<lparr>marketLoading := False\<rparr>)])"

text \<open>
  \<^verbatim>\<open>handleSubmit\<close> of the combined dashboard. After \<^verbatim>\<open>setPrediction(data)\<close> and with an
  API key, \<^verbatim>\<open>fetchMarketMovers\<close> runs up to its \<^verbatim>\<open>await\<close>
  (\<^verbatim>\<open>setMarketLoading(true)\<close> and the \<^verbatim>\<open>fetch\<close> of the GET); the handler then reaches
  \<^verbatim>\<open>setLoading(false)\<close>, and the rest of \<^verbatim>\<open>fetchMarketMovers\<close> follows when the GET
  has settled.
\<close>

definition handleSubmit_home_steps ::
  "host \<Rightarrow> network \<Rightarrow> FormData \<Rightarrow> home_state \<Rightarrow> home_state step list" where
  "handleSubmit_home_steps h net formData st =
     (let st1 = st\<lparr>loading := True\<rparr>;
          st2 = st1\<lparr>error := None\<rparr>;
          req = predict_request formData
      in [SetState st1, SetState st2, Fetch req] @
         (case post_prediction h net req of
            Inr data \<Rightarrow>
              (let st3 = st2\<lparr>prediction := data\<rparr>
               in if api_key formData \<noteq> [] then
                    (let st4 = st3\<lparr>marketLoading := True\<rparr>;
                         st5 = st4\<lparr>loading := False\<rparr>
                     in [SetState st3, SetState st4, Fetch (movers_request (api_key formData)), SetState st5]
                        @ fetchMarketMovers_steps net (api_key formData) st5)
                  else [SetState st3, SetState (st3\<lparr>loading := False\<rparr>)])
          | Inl err \<Rightarrow>
              (let st3 = st2\<lparr>error := Some (error_message err)\<rparr>
               in [SetState st3, SetState (st3\<lparr>loading := False\<rparr>)])))"

section \<open>Initial values and a sample host\<close>

text \<open>
  The initial \<^verbatim>\<open>useState\<close> values of the combined dashboard; the form with a
  placeholder in the place of the API key the source starts with.
\<close>

definition sample_FormData :: FormData where
  "sample_FormData =
     \<lparr>base_currency = ''BTC'', quote_currency = ''USD'', timeframe = ''daily'', period = ''180'',
      api_key = ''demo''\<rparr>"

definition initial_home_state :: home_state where
  "initial_home_state =
     \<lparr>prediction = JNull, loading = False, error = None, marketMovers = JNull,
      newsSentiment = JNull, marketLoading = False, newsLoading = False\<rparr>"

text \<open>The initial values of the yahoo-dataset dashboard.\<close>

definition initial_FormData_yahoo :: FormData_yahoo where
  "initial_FormData_yahoo = \<lparr>symbol = ''BTC-USD'', timeframe = ''1d'', period = ''30d''\<rparr>"

definition initial_yahoo_state :: yahoo_state where
  "initial_yahoo_state =
     \<lparr>prediction = JNull, loading = False, error = None, marketMovers = JNull, news = JNull\<rparr>"

text \<open>The initial values of the unnamed variant.\<close>

definition initial_FormData_plain :: FormData where
  "initial_FormData_plain =
     \<lparr>base_currency = ''BTC'', quote_currency = ''USD'', timeframe = ''daily'', period = ''30'',
      api_key = ''''\<rparr>"

definition initial_plain_state :: dashboard_state where
  "initial_plain_state = \<lparr>prediction = JNull, loading = False, error = None\<rparr>"

text \<open>
  A form whose API key has a quotation mark, a backslash, a line feed and the control
  character U+0001, which \<^verbatim>\<open>JSON.stringify\<close> has to escape.
\<close>

definition sample_FormData_escapes :: FormData where
  "sample_FormData_escapes =
     \<lparr>base_currency = ''BTC'', quote_currency = ''USD'', timeframe = ''daily'', period = ''30'',
      api_key = [CHR 0x22, CHR ''a'', CHR 0x5C, CHR 0x0A, CHR 0x01]\<rparr>"

text \<open>Separators after every third digit, counted from the right.\<close>

fun group_rev :: "string \<Rightarrow> string \<Rightarrow> string" where
  "group_rev sep (a # b # c # d # ds) = a # b # c # rev sep @ group_rev sep (d # ds)"
| "group_rev sep ds = ds"

definition group_thousands :: "string \<Rightarrow> string \<Rightarrow> string" where
  "group_thousands sep ds = rev (group_rev sep (rev ds))"

text \<open>
  A host for the closed examples: V8's message for a property read on \<^verbatim>\<open>null\<close>, the
  digits of \<open>ecma_digits\<close>, the en-US separators and date pattern, the time zone UTC, no
  fallback date format.
\<close>

definition en_US_host :: host where
  "en_US_host =
     \<lparr>null_read_message =
        (\<lambda>p. ''Cannot read properties of null (reading '' @ [CHR 0x27] @ p @ [CHR 0x27] @ '')''),
      shortest_digits = (\<lambda>x. case ecma_digits x of (s, n) \<Rightarrow> (nat s, n)),
      loc_decimal = ''.'',
      loc_minus = ''-'',
      loc_group = group_thousands '','',
      behind_utc = False,
      loc_date = (\<lambda>y m d. show_nat m @ ''/'' @ show_nat d @ ''/'' @ show_nat (nat y)),
      legacy_date = (\<lambda>s. InvalidDate)\<rparr>"

text \<open>A response with the given \<^verbatim>\<open>ok\<close> flag whose body parses to the given value.\<close>

definition answer :: "bool \<Rightarrow> json \<Rightarrow> thrown + response" where
  "answer status data = Inr \<lparr>ok = status, json_body = Inr data\<rparr>"

text \<open>
  A network for the closed examples: the POST is answered with the given payload, every
  GET with the status 500 and an empty object.
\<close>

definition sample_network :: "json \<Rightarrow> network" where
  "sample_network data req =
     (if http_method req = ''POST'' then answer True data else answer False (JObj []))"

text \<open>A forecast point for the closed examples.\<close>

definition sample_point :: "string \<Rightarrow> rat \<Rightarrow> ForecastPoint" where
  "sample_point dir p =
     \<lparr>date = ''2025-02-25'', predicted_price = 12345 / 10, prediction_interval_low = 1200,
      prediction_interval_high = 1300, direction = dir, probability = p\<rparr>"

text \<open>
  The binary64 number written \<^verbatim>\<open>0.8234\<close>, a prediction payload and a ticker for the
  closed examples.
\<close>

definition sample_probability :: rat where
  "sample_probability = fl (8234 / 10000)"

text \<open>
  The binary64 numbers written \<^verbatim>\<open>1.005\<close> and \<^verbatim>\<open>1.0005\<close>: both lie below the decimal
  they are written as.
\<close>

definition sample_half_cent :: rat where
  "sample_half_cent = fl (1005 / 1000)"

definition sample_half_mill :: rat where
  "sample_half_mill = fl (10005 / 10000)"




section \<open>Vocabulary of the specification\<close>

text \<open>
  A request fails when the network rejects it, when the status is not 2xx, or when the
  body is not JSON.
\<close>

definition request_failed :: "network \<Rightarrow> request \<Rightarrow> bool" where
  "request_failed net req =
     (case net req of Inl err \<Rightarrow> True | Inr resp \<Rightarrow> \<not> ok resp \<or> isl (json_body resp))"

text \<open>
  A secondary GET of the yahoo-dataset dashboard throws when the network rejects it or
  when a 2xx body is not JSON.
\<close>

definition request_threw :: "network \<Rightarrow> request \<Rightarrow> bool" where
  "request_threw net req =
     (case net req of Inl err \<Rightarrow> True | Inr resp \<Rightarrow> ok resp \<and> isl (json_body resp))"

text \<open>The \<^verbatim>\<open>detail\<close> field of an error body, when the body is an object that has one.\<close>

definition detail_of :: "json \<Rightarrow> json option" where
  "detail_of errorData = (case errorData of JObj kvs \<Rightarrow> map_of kvs ''detail'' | _ \<Rightarrow> None)"

text \<open>
  A natural number of tenths written with one fraction digit: the decimal numeral of
  \<open>n div 10\<close>, a point, and the digit \<open>n mod 10\<close>.
\<close>

definition tenths_numeral :: "nat \<Rightarrow> string" where
  "tenths_numeral n = show_nat (n div 10) @ ''.'' @ [digit_char (n mod 10)]"

text \<open>
  The two-decimal, locale-grouped format of a currency value: the decimal the number is
  written as, rounded to hundredths (a tie away from zero), the integer digits grouped as
  the locale groups them, the locale's decimal separator and exactly two fraction digits;
  the locale's minus sign in front of a negative value.
\<close>

definition two_decimals :: "host \<Rightarrow> rat \<Rightarrow> string" where
  "two_decimals h x =
     (let n = nat \<lfloor>shortest_decimal h x * 100 + 1 / 2\<rfloor>
      in (if x < 0 then loc_minus h else []) @ loc_group h (show_nat (n div 100)) @ loc_decimal h
         @ [digit_char (n div 10 mod 10), digit_char (n mod 10)])"

text \<open>
  The locale's default format: the decimal the number is written as, rounded to
  thousandths (a tie away from zero), the integer digits grouped; no fraction and no
  separator when the thousandths are a whole number, otherwise one, two or three fraction
  digits, the last of them not a zero.
\<close>

definition up_to_three_decimals :: "host \<Rightarrow> rat \<Rightarrow> string" where
  "up_to_three_decimals h x =
     (let n = nat \<lfloor>shortest_decimal h x * 1000 + 1 / 2\<rfloor>;
          d1 = digit_char (n div 100 mod 10);
          d2 = digit_char (n div 10 mod 10);
          d3 = digit_char (n mod 10)
      in (if x < 0 then loc_minus h else []) @ loc_group h (show_nat (n div 1000))
         @ (if n mod 1000 = 0 then []
            else loc_decimal h @
              (if n mod 100 = 0 then [d1] else if n mod 10 = 0 then [d1, d2] else [d1, d2, d3])))"

text \<open>The last \<open>j\<close> decimal digits of a natural number, with leading zeros.\<close>

fun last_digits :: "nat \<Rightarrow> nat \<Rightarrow> string" where
  "last_digits 0 m = []"
| "last_digits (Suc j) m = last_digits j (m div 10) @ [digit_char (m mod 10)]"

text \<open>
  Reading a JSON text (RFC 8259) that is an object of strings, without insignificant
  white space. \<open>read_string\<close> reads a string from behind its opening quotation mark: the
  characters up to the closing quotation mark, a backslash introducing one of the
  two-character escapes or \<^verbatim>\<open>\u\<close> and four hexadecimal digits (a code unit below 256,
  as the strings of the model have them), control characters not allowed. It gives the
  string denoted and the text behind the closing quotation mark.
\<close>

definition hex_value :: "char \<Rightarrow> nat option" where
  "hex_value c =
     (let n = (of_char c :: nat) in
      if 48 \<le> n \<and> n \<le> 57 then Some (n - 48)
      else if 97 \<le> n \<and> n \<le> 102 then Some (n - 87)
      else if 65 \<le> n \<and> n \<le> 70 then Some (n - 55)
      else None)"

definition unescape :: "char \<Rightarrow> char option" where
  "unescape e =
     (let n = (of_char e :: nat) in
      if n = 34 \<or> n = 92 \<or> n = 47 then Some e
      else if n = 98 then Some (char_of (8 :: nat))
      else if n = 102 then Some (char_of (12 :: nat))
      else if n = 110 then Some (char_of (10 :: nat))
      else if n = 114 then Some (char_of (13 :: nat))
      else if n = 116 then Some (char_of (9 :: nat))
      else None)"

fun read_string :: "string \<Rightarrow> (string \<times> string) option" where
  "read_string [] = None"
| "read_string (c # cs) =
     (if of_char c = (34 :: nat) then Some ([], cs)
      else if of_char c = (92 :: nat) then
        (case cs of
           [] \<Rightarrow> None
         | e # r \<Rightarrow>
             if of_char e = (117 :: nat) then
               (case r of
                  a # b # c' # d # r' \<Rightarrow>
                    (case (hex_value a, hex_value b, hex_value c', hex_value d) of
                       (Some x1, Some x2, Some x3, Some x4) \<Rightarrow>
                         (let n = ((x1 * 16 + x2) * 16 + x3) * 16 + x4
                          in if n < 256 then
                               (case read_string r' of
                                  None \<Rightarrow> None
                                | Some (s, rest) \<Rightarrow> Some (char_of n # s, rest))
                             else None)
                     | _ \<Rightarrow> None)
                | _ \<Rightarrow> None)
             else
               (case unescape e of
                  None \<Rightarrow> None
                | Some ch \<Rightarrow>
                    (case read_string r of
                       None \<Rightarrow> None
                     | Some (s, rest) \<Rightarrow> Some (ch # s, rest))))
      else if of_char c < (32 :: nat) then None
      else (case read_string cs of
              None \<Rightarrow> None
            | Some (s, rest) \<Rightarrow> Some (c # s, rest)))"

text \<open>
  The members of an object from the opening quotation mark of a name on: a name, a colon,
  a string, and a comma with further members or the closing brace and the end of the
  text. The first argument bounds the number of members.
\<close>

fun read_members :: "nat \<Rightarrow> string \<Rightarrow> (string \<times> string) list option" where
  "read_members 0 s = None"
| "read_members (Suc n) s =
     (case s of
        [] \<Rightarrow> None
      | q # s1 \<Rightarrow>
          if of_char q \<noteq> (34 :: nat) then None
          else (case read_string s1 of
                  Some (k, c # q' # s2) \<Rightarrow>
                    if of_char c \<noteq> (58 :: nat) \<or> of_char q' \<noteq> (34 :: nat) then None
                    else (case read_string s2 of
                            Some (v, d # s3) \<Rightarrow>
                              if of_char d = (125 :: nat) then (if s3 = [] then Some [(k, v)] else None)
                              else if of_char d = (44 :: nat) then
                                (case read_members n s3 of
                                   None \<Rightarrow> None
                                 | Some m \<Rightarrow> Some ((k, v) # m))
                              else None
                          | _ \<Rightarrow> None)
                | _ \<Rightarrow> None))"

text \<open>
  The object a JSON text denotes, as the list of its members, when the text is an object
  of strings with at least one member.
\<close>

definition JSON_parse_strings :: "string \<Rightarrow> (string \<times> string) list option" where
  "JSON_parse_strings s =
     (case s of
        [] \<Rightarrow> None
      | b # r \<Rightarrow> if of_char b = (123 :: nat) then read_members (length r) r else None)"

section \<open>Properties of the submit handlers\<close>

lemma post_prediction_failed:
  "request_failed net req \<Longrightarrow> \<exists>err. post_prediction h net req = Inl err"
  by (auto simp: request_failed_def post_prediction_def isl_def split: sum.splits)

lemma post_prediction_ok:
  "net req = Inr resp \<Longrightarrow> ok resp \<Longrightarrow> json_body resp = Inr data \<Longrightarrow>
   post_prediction h net req = Inr data"
  by (simp add: post_prediction_def)

lemma post_prediction_not_ok:
  "net req = Inr resp \<Longrightarrow> \<not> ok resp \<Longrightarrow> json_body resp = Inr errorData \<Longrightarrow>
   post_prediction h net req =
     (case get_detail h errorData of
        Inl err \<Rightarrow> Inl err
      | Inr d \<Rightarrow> Inl (Error (ToString h (or_else d (JStr ''Failed to fetch prediction'')))))"
  by (simp add: post_prediction_def)

lemma get_detail_detail_of:
  "errorData \<noteq> JNull \<Longrightarrow> get_detail h errorData = Inr (detail_of errorData)"
  by (cases errorData) (simp_all add: detail_of_def)

lemma detail_not_null: "detail_of errorData = Some v \<Longrightarrow> errorData \<noteq> JNull"
  by (auto simp: detail_of_def)

lemma thrown_message:
  assumes "net req = Inr resp" "\<not> ok resp" "json_body resp = Inr errorData" "errorData \<noteq> JNull"
  shows "post_prediction h net req =
     Inl (Error (ToString h (or_else (detail_of errorData) (JStr ''Failed to fetch prediction''))))"
  using assms by (simp add: post_prediction_not_ok get_detail_detail_of)

lemma home_error_of_post:
  "post_prediction h net (predict_request fd) = Inl err \<Longrightarrow>
   error (handleSubmit_home h net fd st) = Some (error_message err)"
  by (simp add: handleSubmit_home_def handleSubmit_home_post_def submit_begin_def catch_error_def)

lemma yahoo_error_of_post:
  "post_prediction h net (predict_request_yahoo fd) = Inl err \<Longrightarrow>
   error (handleSubmit_yahoo h net fd st) = Some (error_message err)"
  by (simp add: handleSubmit_yahoo_def yahoo_try_def submit_begin_def catch_error_def)

lemma home_error_not_ok:
  assumes "net (predict_request fd) = Inr resp" "\<not> ok resp" "json_body resp = Inr errorData"
    "errorData \<noteq> JNull"
  shows "error (handleSubmit_home h net fd st) =
     Some (ToString h (or_else (detail_of errorData) (JStr ''Failed to fetch prediction'')))"
  using home_error_of_post[OF thrown_message[of net "predict_request fd" resp errorData h, OF assms], of st]
  by (simp add: error_message_def)

lemma yahoo_error_not_ok:
  assumes "net (predict_request_yahoo fd) = Inr resp" "\<not> ok resp" "json_body resp = Inr errorData"
    "errorData \<noteq> JNull"
  shows "error (handleSubmit_yahoo h net fd st) =
     Some (ToString h (or_else (detail_of errorData) (JStr ''Failed to fetch prediction'')))"
  using yahoo_error_of_post[OF thrown_message[of net "predict_request_yahoo fd" resp errorData h, OF assms], of st]
  by (simp add: error_message_def)

lemma home_error_detail:
  assumes "net (predict_request fd) = Inr resp" "\<not> ok resp" "json_body resp = Inr errorData"
    "detail_of errorData = Some v"
  shows "error (handleSubmit_home h net fd st) =
     Some (ToString h (or_else (Some v) (JStr ''Failed to fetch prediction'')))"
  using assms detail_not_null[OF assms(4)] by (simp add: home_error_not_ok)

lemma yahoo_error_detail:
  assumes "net (predict_request_yahoo fd) = Inr resp" "\<not> ok resp" "json_body resp = Inr errorData"
    "detail_of errorData = Some v"
  shows "error (handleSubmit_yahoo h net fd st) =
     Some (ToString h (or_else (Some v) (JStr ''Failed to fetch prediction'')))"
  using assms detail_not_null[OF assms(4)] by (simp add: yahoo_error_not_ok)

text \<open>
  C1, as the code has it. The claim says that every string \<^verbatim>\<open>detail\<close> of a non-2xx
  body becomes the error state. The handlers throw
  \<^verbatim>\<open>new Error(errorData.detail || "Failed to fetch prediction")\<close>, and the empty string
  is falsy: for the body \<^verbatim>\<open>{"detail": ""}\<close> the error state is the fallback message,
  not the empty string.
\<close>

theorem empty_detail_gives_fallback:
  "error (handleSubmit_home en_US_host (\<lambda>req. answer False (JObj [(''detail'', JStr '''')]))
            sample_FormData initial_home_state) \<noteq> Some ''''"
  by (simp add: home_error_not_ok[where errorData = "JObj [(''detail'', JStr '''')]"]
        answer_def detail_of_def or_else_def)

text \<open>
  C1, amended: for every non-2xx response to the prediction POST whose JSON body has a
  non-empty string field \<^verbatim>\<open>detail\<close>, the error state is that string; when the body is a
  JSON value other than \<^verbatim>\<open>null\<close> with no \<^verbatim>\<open>detail\<close> field, or with the empty string as
  \<^verbatim>\<open>detail\<close>, the error state is "Failed to fetch prediction". Both dashboards the claim
  cites behave so.
\<close>

theorem error_state_is_detail_or_fallback:
  "(net (predict_request fd) = Inr resp \<and> \<not> ok resp \<and> json_body resp = Inr errorData \<longrightarrow>
      (\<forall>d. detail_of errorData = Some (JStr d) \<and> d \<noteq> [] \<longrightarrow>
           error (handleSubmit_home h net fd st) = Some d)
    \<and> (errorData \<noteq> JNull \<and> (detail_of errorData = None \<or> detail_of errorData = Some (JStr [])) \<longrightarrow>
           error (handleSubmit_home h net fd st) = Some ''Failed to fetch prediction''))
 \<and> (net (predict_request_yahoo fdy) = Inr resp \<and> \<not> ok resp \<and> json_body resp = Inr errorData \<longrightarrow>
      (\<forall>d. detail_of errorData = Some (JStr d) \<and> d \<noteq> [] \<longrightarrow>
           error (handleSubmit_yahoo h net fdy sty) = Some d)
    \<and> (errorData \<noteq> JNull \<and> (detail_of errorData = None \<or> detail_of errorData = Some (JStr [])) \<longrightarrow>
           error (handleSubmit_yahoo h net fdy sty) = Some ''Failed to fetch prediction''))"
  by (auto simp: home_error_not_ok yahoo_error_not_ok home_error_detail yahoo_error_detail or_else_def)

theorem error_state_is_detail_or_fallback_witness:
  "error (handleSubmit_home en_US_host (\<lambda>req. answer False (JObj [(''detail'', JStr ''Invalid symbol'')]))
            sample_FormData initial_home_state) = Some ''Invalid symbol''
   \<and> error (handleSubmit_yahoo en_US_host (\<lambda>req. answer False (JObj []))
            initial_FormData_yahoo initial_yahoo_state) = Some ''Failed to fetch prediction''"
  using error_state_is_detail_or_fallback
    [of "\<lambda>req. answer False (JObj [(''detail'', JStr ''Invalid symbol'')])" sample_FormData
        "\<lparr>ok = False, json_body = Inr (JObj [(''detail'', JStr ''Invalid symbol'')])\<rparr>"
        "JObj [(''detail'', JStr ''Invalid symbol'')]" en_US_host initial_home_state
        initial_FormData_yahoo initial_yahoo_state]
    error_state_is_detail_or_fallback
    [of "\<lambda>req. answer False (JObj [])" sample_FormData
        "\<lparr>ok = False, json_body = Inr (JObj [])\<rparr>"
        "JObj []" en_US_host initial_home_state
        initial_FormData_yahoo initial_yahoo_state]
  by (simp add: answer_def detail_of_def)

text \<open>
  C9: when the prediction POST fails (the network rejects it, the status is not 2xx, or
  the body is not JSON), the handlers of the combined dashboard and of the unnamed
  variant end in the state they started from with only the error message set and the
  loading flag cleared: the stored prediction and every other payload are unchanged.
\<close>

theorem failed_post_keeps_prediction:
  assumes "request_failed net (predict_request formData)"
  shows "\<exists>m. handleSubmit_home h net formData st = st\<lparr>error := Some m, loading := False\<rparr>
           \<and> handleSubmit_plain h net formData st' = st'\<lparr>error := Some m, loading := False\<rparr>"
proof -
  from post_prediction_failed[OF assms] obtain err
    where "post_prediction h net (predict_request formData) = Inl err" by blast
  then have "handleSubmit_home h net formData st = st\<lparr>error := Some (error_message err), loading := False\<rparr>"
    and "handleSubmit_plain h net formData st' = st'\<lparr>error := Some (error_message err), loading := False\<rparr>"
    by (simp_all add: handleSubmit_home_def handleSubmit_home_post_def handleSubmit_plain_def
        submit_begin_def catch_error_def)
  then show ?thesis by blast
qed

theorem failed_post_keeps_prediction_witness:
  "request_failed (\<lambda>req. Inl (Error ''Failed to fetch'')) (predict_request sample_FormData)
   \<and> prediction (handleSubmit_home en_US_host (\<lambda>req. Inl (Error ''Failed to fetch'')) sample_FormData
        (initial_home_state\<lparr>prediction := JObj [(''prediction'', JStr ''UP'')]\<rparr>))
      = JObj [(''prediction'', JStr ''UP'')]"
proof -
  have f: "request_failed (\<lambda>req. Inl (Error ''Failed to fetch'')) (predict_request sample_FormData)"
    by (simp add: request_failed_def)
  from failed_post_keeps_prediction[OF f, of en_US_host
        "initial_home_state\<lparr>prediction := JObj [(''prediction'', JStr ''UP'')]\<rparr>" initial_plain_state]
  obtain m where "handleSubmit_home en_US_host (\<lambda>req. Inl (Error ''Failed to fetch'')) sample_FormData
        (initial_home_state\<lparr>prediction := JObj [(''prediction'', JStr ''UP'')]\<rparr>)
      = (initial_home_state\<lparr>prediction := JObj [(''prediction'', JStr ''UP'')]\<rparr>)\<lparr>error := Some m, loading := False\<rparr>"
    by blast
  then show ?thesis using f by simp
qed

text \<open>
  C4: when the prediction POST of the combined dashboard succeeds, an API key is set (so
  the market-movers GET is issued) and that GET fails, the handler first leaves the
  error state empty with the new prediction stored, and the failed GET then puts its
  own message into the error state; the stored prediction stays the new payload.
\<close>

theorem secondary_failure_overwrites_error:
  assumes "net (predict_request formData) = Inr resp" "ok resp" "json_body resp = Inr data"
    and "api_key formData \<noteq> []"
    and "request_failed net (movers_request (api_key formData))"
  shows "handleSubmit_home_post h net formData st
          = (True, st\<lparr>prediction := data, loading := False, error := None, marketLoading := True\<rparr>)
    \<and> prediction (handleSubmit_home h net formData st) = data
    \<and> error (handleSubmit_home h net formData st) \<noteq> None
    \<and> (\<forall>err. net (movers_request (api_key formData)) = Inl err \<longrightarrow>
          error (handleSubmit_home h net formData st) = Some (error_message err))
    \<and> (\<forall>r. net (movers_request (api_key formData)) = Inr r \<and> \<not> ok r \<longrightarrow>
          error (handleSubmit_home h net formData st) = Some ''Failed to fetch market data'')
    \<and> (\<forall>r err. net (movers_request (api_key formData)) = Inr r \<and> ok r \<and> json_body r = Inl err \<longrightarrow>
          error (handleSubmit_home h net formData st) = Some (error_message err))"
  using assms
  by (auto simp: handleSubmit_home_def handleSubmit_home_post_def post_prediction_ok
        submit_begin_def catch_error_def fetchMarketMovers_begin_def fetchMarketMovers_settle_def
        request_failed_def error_message_def isl_def split: sum.splits)

theorem secondary_failure_overwrites_error_witness:
  "prediction (handleSubmit_home en_US_host (sample_network (JObj [(''prediction'', JStr ''UP'')]))
       sample_FormData initial_home_state) = JObj [(''prediction'', JStr ''UP'')]
   \<and> error (handleSubmit_home en_US_host (sample_network (JObj [(''prediction'', JStr ''UP'')]))
       sample_FormData initial_home_state) = Some ''Failed to fetch market data''"
proof -
  let ?net = "sample_network (JObj [(''prediction'', JStr ''UP'')])"
  have 1: "?net (predict_request sample_FormData)
            = Inr \<lparr>ok = True, json_body = Inr (JObj [(''prediction'', JStr ''UP'')])\<rparr>"
    by (simp add: sample_network_def predict_request_def answer_def)
  have 2: "api_key sample_FormData \<noteq> []" by (simp add: sample_FormData_def)
  have 3: "?net (movers_request (api_key sample_FormData)) = Inr \<lparr>ok = False, json_body = Inr (JObj [])\<rparr>"
    by (simp add: sample_network_def movers_request_def get_request_def answer_def)
  have 4: "request_failed ?net (movers_request (api_key sample_FormData))"
    by (simp add: request_failed_def 3)
  from secondary_failure_overwrites_error[OF 1 _ _ 2 4, of "JObj [(''prediction'', JStr ''UP'')]" en_US_host initial_home_state]
  show ?thesis using 3 by simp
qed

lemma yahoo_after_post:
  assumes "net (predict_request_yahoo formData) = Inr resp" "ok resp" "json_body resp = Inr data"
  shows "yahoo_try h net formData st =
          (case yahoo_movers_step net (st\<lparr>prediction := data\<rparr>) of
             (Some err, st1) \<Rightarrow> (Some err, st1)
           | (None, st1) \<Rightarrow> yahoo_news_step net formData st1)"
  using assms by (simp add: yahoo_try_def post_prediction_ok)

text \<open>
  C10: in the yahoo-dataset dashboard, after a successful prediction POST, a secondary
  GET answered with a status that is not 2xx is passed over: the payload stored for it
  is unchanged and it sets no error. The error state is set exactly when one of the two
  GETs throws (the network rejects it, or a 2xx body is not JSON).
\<close>

theorem yahoo_not_ok_secondary_is_skipped:
  assumes "net (predict_request_yahoo formData) = Inr resp" "ok resp" "json_body resp = Inr data"
  shows "((error (handleSubmit_yahoo h net formData st) = None) =
           (\<not> request_threw net movers_request_yahoo
            \<and> \<not> request_threw net (news_request_yahoo formData)))
    \<and> (\<forall>r. net movers_request_yahoo = Inr r \<and> \<not> ok r \<longrightarrow>
           marketMovers (handleSubmit_yahoo h net formData st) = marketMovers st)
    \<and> (\<forall>r. net (news_request_yahoo formData) = Inr r \<and> \<not> ok r \<longrightarrow>
           news (handleSubmit_yahoo h net formData st) = news st)
    \<and> (\<forall>r r'. net movers_request_yahoo = Inr r \<and> \<not> ok r
             \<and> net (news_request_yahoo formData) = Inr r' \<and> \<not> ok r' \<longrightarrow>
           handleSubmit_yahoo h net formData st = st\<lparr>prediction := data, loading := False, error := None\<rparr>)"
  using assms
  by (auto simp: handleSubmit_yahoo_def yahoo_after_post yahoo_movers_step_def yahoo_news_step_def
        submit_begin_def catch_error_def request_threw_def isl_def split: sum.splits prod.splits option.splits)

theorem yahoo_not_ok_secondary_is_skipped_witness:
  "handleSubmit_yahoo en_US_host (sample_network (JObj [(''prediction'', JStr ''UP'')]))
       initial_FormData_yahoo (initial_yahoo_state\<lparr>marketMovers := JObj [], news := JArr []\<rparr>)
     = \<lparr>prediction = JObj [(''prediction'', JStr ''UP'')], loading = False, error = None,
        marketMovers = JObj [], news = JArr []\<rparr>"
proof -
  let ?net = "sample_network (JObj [(''prediction'', JStr ''UP'')])"
  have 1: "?net (predict_request_yahoo initial_FormData_yahoo)
            = Inr \<lparr>ok = True, json_body = Inr (JObj [(''prediction'', JStr ''UP'')])\<rparr>"
    by (simp add: sample_network_def predict_request_yahoo_def answer_def)
  have 2: "?net movers_request_yahoo = Inr \<lparr>ok = False, json_body = Inr (JObj [])\<rparr>"
    by (simp add: sample_network_def movers_request_yahoo_def get_request_def answer_def)
  have 3: "?net (news_request_yahoo initial_FormData_yahoo) = Inr \<lparr>ok = False, json_body = Inr (JObj [])\<rparr>"
    by (simp add: sample_network_def news_request_yahoo_def get_request_def answer_def)
  from yahoo_not_ok_secondary_is_skipped[of ?net initial_FormData_yahoo _
      "JObj [(''prediction'', JStr ''UP'')]" en_US_host
      "initial_yahoo_state\<lparr>marketMovers := JObj [], news := JArr []\<rparr>", OF 1]
  show ?thesis using 2 3 by (simp add: initial_yahoo_state_def)
qed

section \<open>The submit contract\<close>

lemma quote_key:
  "QuoteJSONString ''base_currency'' = CHR 0x22 # ''base_currency'' @ [CHR 0x22]"
  "QuoteJSONString ''quote_currency'' = CHR 0x22 # ''quote_currency'' @ [CHR 0x22]"
  "QuoteJSONString ''timeframe'' = CHR 0x22 # ''timeframe'' @ [CHR 0x22]"
  "QuoteJSONString ''period'' = CHR 0x22 # ''period'' @ [CHR 0x22]"
  "QuoteJSONString ''api_key'' = CHR 0x22 # ''api_key'' @ [CHR 0x22]"
  by code_simp+

lemma JSON_stringify_form:
  "JSON_stringify fd =
     ''{'' @ CHR 0x22 # ''base_currency'' @ CHR 0x22 # '':'' @ QuoteJSONString (base_currency fd)
     @ '','' @ CHR 0x22 # ''quote_currency'' @ CHR 0x22 # '':'' @ QuoteJSONString (quote_currency fd)
     @ '','' @ CHR 0x22 # ''timeframe'' @ CHR 0x22 # '':'' @ QuoteJSONString (FormData.timeframe fd)
     @ '','' @ CHR 0x22 # ''period'' @ CHR 0x22 # '':'' @ QuoteJSONString (FormData.period fd)
     @ '','' @ CHR 0x22 # ''api_key'' @ CHR 0x22 # '':'' @ QuoteJSONString (api_key fd) @ ''}''"
  by (simp add: JSON_stringify_def stringify_object_def stringify_member_def quote_key)

lemma settle_keeps:
  "prediction (fetchMarketMovers_settle net k st) = prediction st"
  "loading (fetchMarketMovers_settle net k st) = loading st"
  by (simp_all add: fetchMarketMovers_settle_def catch_error_def Let_def split: sum.splits)

text \<open>The handlers leave the component in the state of their last setter call.\<close>

lemma handleSubmit_plain_last:
  "last_state st (handleSubmit_plain_steps h net fd st) = handleSubmit_plain h net fd st"
  by (simp add: handleSubmit_plain_steps_def handleSubmit_plain_def submit_begin_def catch_error_def Let_def
      split: sum.splits)

lemma handleSubmit_home_last:
  "last_state st (handleSubmit_home_steps h net fd st) = handleSubmit_home h net fd st"
  by (simp add: handleSubmit_home_steps_def handleSubmit_home_def handleSubmit_home_post_def
      fetchMarketMovers_steps_def fetchMarketMovers_settle_def fetchMarketMovers_begin_def
      submit_begin_def catch_error_def Let_def
      split: sum.splits)

text \<open>
  The setter call that ends \<^verbatim>\<open>handleSubmit\<close> itself (\<^verbatim>\<open>setLoading(false)\<close> in
  \<^verbatim>\<open>finally\<close>) is among the steps, with the state \<open>handleSubmit_home_post\<close> gives.
\<close>

lemma handleSubmit_home_finally:
  "SetState (snd (handleSubmit_home_post h net fd st)) \<in> set (handleSubmit_home_steps h net fd st)"
  by (simp add: handleSubmit_home_steps_def handleSubmit_home_post_def fetchMarketMovers_begin_def
      submit_begin_def catch_error_def Let_def split: sum.splits)

subsection \<open>What \<^verbatim>\<open>JSON.stringify\<close> writes is read back\<close>

lemma control_chars:
  "char_of (8::nat) = CHR 0x08" "char_of (9::nat) = CHR 0x09" "char_of (10::nat) = CHR 0x0A"
  "char_of (12::nat) = CHR 0x0C" "char_of (13::nat) = CHR 0x0D" "char_of (34::nat) = CHR 0x22"
  "char_of (92::nat) = CHR 0x5C"
  by code_simp+

lemma hex_value_hex_char: "d < 16 \<Longrightarrow> hex_value (hex_char d) = Some d"
  by (auto simp: hex_value_def hex_char_def Let_def)

lemma hex_value_0: "hex_value CHR ''0'' = Some 0"
  by (simp add: hex_value_def)

text \<open>The escape of a character is read as that character.\<close>

lemma read_escape_char:
  "read_string (escape_char c @ rest) =
     (case read_string rest of None \<Rightarrow> None | Some (s, r) \<Rightarrow> Some (c # s, r))"
proof -
  define n where "n = (of_char c :: nat)"
  have c: "c = char_of n" by (simp add: n_def)
  have n: "n < 256" by (simp add: n_def)
  have h: "n < 32 \<Longrightarrow> hex_value (hex_char (n div 16)) = Some (n div 16)"
    "hex_value (hex_char (n mod 16)) = Some (n mod 16)"
    by (simp_all add: hex_value_hex_char)
  show ?thesis
    unfolding escape_char_def Let_def n_def[symmetric]
    using n h
    by (auto simp: unescape_def Let_def hex_value_0 c control_chars split: option.splits)
qed

lemma read_escaped:
  "read_string (concat (map escape_char s) @ CHR 0x22 # rest) = Some (s, rest)"
  by (induction s) (simp_all add: read_escape_char)

lemma read_quoted:
  "QuoteJSONString s @ rest = CHR 0x22 # concat (map escape_char s) @ CHR 0x22 # rest"
  by (simp add: QuoteJSONString_def)

lemma length_member: "0 < length (stringify_member kv)"
  by (simp add: stringify_member_def QuoteJSONString_def)

lemma length_members: "length kvs \<le> length (join_with '','' (map stringify_member kvs) @ ''}'')"
proof (induction kvs rule: induct_list012)
  case (3 x y zs)
  then show ?case using length_member[of x] by simp
qed simp_all

lemma read_member:
  "read_members (Suc m) (stringify_member kv @ CHR '','' # r) =
     (case read_members m r of None \<Rightarrow> None | Some ms \<Rightarrow> Some (kv # ms))"
  "read_members (Suc m) (stringify_member kv @ ''}'') = Some [kv]"
  by (simp_all add: stringify_member_def read_quoted read_escaped split: option.splits)

lemma read_members_members:
  "kvs \<noteq> [] \<Longrightarrow> length kvs \<le> n \<Longrightarrow>
   read_members n (join_with '','' (map stringify_member kvs) @ ''}'') = Some kvs"
proof (induction kvs arbitrary: n rule: induct_list012)
  case 1
  then show ?case by simp
next
  case (2 x)
  then obtain m where n: "n = Suc m" by (cases n) auto
  show ?case
    by (simp add: n read_member del: read_members.simps)
next
  case (3 x y zs)
  then obtain m where n: "n = Suc m" by (cases n) auto
  define r where "r = join_with '','' (map stringify_member (y # zs)) @ ''}''"
  have "read_members m r = Some (y # zs)"
    using 3 n by (simp add: r_def)
  moreover have "join_with '','' (map stringify_member (x # y # zs)) @ ''}'' = stringify_member x @ CHR '','' # r"
    by (simp add: r_def)
  ultimately show ?case
    by (simp add: n read_member del: read_members.simps)
qed

text \<open>
  The text \<^verbatim>\<open>JSON.stringify\<close> writes for an object of strings denotes that object, whatever
  characters the strings have.
\<close>

lemma JSON_parse_stringify:
  "kvs \<noteq> [] \<Longrightarrow> JSON_parse_strings (stringify_object kvs) = Some kvs"
  using read_members_members[OF _ length_members, of kvs]
  by (simp add: JSON_parse_strings_def stringify_object_def)

text \<open>
  The body for a form whose API key is a quotation mark, \<^verbatim>\<open>a\<close>, a backslash, a line
  feed and U+0001: each of the four is written as its escape.
\<close>

lemma escaped_body:
  "body (predict_request sample_FormData_escapes) =
     Some (''{'' @ CHR 0x22 # ''base_currency'' @ CHR 0x22 # '':'' @ CHR 0x22 # ''BTC'' @ CHR 0x22
       # '','' @ CHR 0x22 # ''quote_currency'' @ CHR 0x22 # '':'' @ CHR 0x22 # ''USD'' @ CHR 0x22
       # '','' @ CHR 0x22 # ''timeframe'' @ CHR 0x22 # '':'' @ CHR 0x22 # ''daily'' @ CHR 0x22
       # '','' @ CHR 0x22 # ''period'' @ CHR 0x22 # '':'' @ CHR 0x22 # ''30'' @ CHR 0x22
       # '','' @ CHR 0x22 # ''api_key'' @ CHR 0x22 # '':'' @ CHR 0x22
       # [CHR 0x5C, CHR 0x22, CHR ''a'', CHR 0x5C, CHR 0x5C, CHR 0x5C, CHR ''n'',
          CHR 0x5C, CHR ''u'', CHR ''0'', CHR ''0'', CHR ''0'', CHR ''1'']
       @ CHR 0x22 # ''}'')"
proof -
  have q: "QuoteJSONString ''BTC'' = CHR 0x22 # ''BTC'' @ [CHR 0x22]"
    "QuoteJSONString ''USD'' = CHR 0x22 # ''USD'' @ [CHR 0x22]"
    "QuoteJSONString ''daily'' = CHR 0x22 # ''daily'' @ [CHR 0x22]"
    "QuoteJSONString ''30'' = CHR 0x22 # ''30'' @ [CHR 0x22]"
    "QuoteJSONString [CHR 0x22, CHR ''a'', CHR 0x5C, CHR 0x0A, CHR 0x01]
       = CHR 0x22 # [CHR 0x5C, CHR 0x22, CHR ''a'', CHR 0x5C, CHR 0x5C, CHR 0x5C, CHR ''n'',
          CHR 0x5C, CHR ''u'', CHR ''0'', CHR ''0'', CHR ''0'', CHR ''1''] @ [CHR 0x22]"
    by code_simp+
  show ?thesis
    by (simp add: predict_request_def sample_FormData_escapes_def JSON_stringify_form q)
qed

text \<open>
  C7, for the combined dashboard and the unnamed variant. The first three steps of
  \<^verbatim>\<open>handleSubmit\<close> are: the loading flag is set; the error is cleared, nothing else
  changed; the POST is issued. Its body is \<^verbatim>\<open>JSON.stringify\<close> of the form fields as they
  are at the submission, a JSON text that denotes the object of the five fields with
  their values. On a 2xx response whose body parses, the next step stores the parsed
  value as the prediction, and it is the prediction when everything has settled. The
  step that ends the handler clears the loading flag, whatever the outcome, and the flag
  stays cleared. The state a handler leaves is that of its last step, and does not
  depend on the earlier values of the loading flag and the error.
\<close>

theorem submit_contract:
  "take 3 (handleSubmit_home_steps h net fd hst) =
     [SetState (hst\<lparr>loading := True\<rparr>), SetState (hst\<lparr>loading := True, error := None\<rparr>),
      Fetch (predict_request fd)]
   \<and> take 3 (handleSubmit_plain_steps h net fd st) =
     [SetState (st\<lparr>loading := True\<rparr>), SetState (st\<lparr>loading := True, error := None\<rparr>),
      Fetch (predict_request fd)]
   \<and> body (predict_request fd) = Some (JSON_stringify fd)
   \<and> JSON_parse_strings (JSON_stringify fd) =
       Some [(''base_currency'', base_currency fd), (''quote_currency'', quote_currency fd),
             (''timeframe'', FormData.timeframe fd), (''period'', FormData.period fd),
             (''api_key'', api_key fd)]
   \<and> JSON_stringify fd =
       ''{'' @ CHR 0x22 # ''base_currency'' @ CHR 0x22 # '':'' @ QuoteJSONString (base_currency fd)
       @ '','' @ CHR 0x22 # ''quote_currency'' @ CHR 0x22 # '':'' @ QuoteJSONString (quote_currency fd)
       @ '','' @ CHR 0x22 # ''timeframe'' @ CHR 0x22 # '':'' @ QuoteJSONString (FormData.timeframe fd)
       @ '','' @ CHR 0x22 # ''period'' @ CHR 0x22 # '':'' @ QuoteJSONString (FormData.period fd)
       @ '','' @ CHR 0x22 # ''api_key'' @ CHR 0x22 # '':'' @ QuoteJSONString (api_key fd) @ ''}''
   \<and> (\<forall>resp data. net (predict_request fd) = Inr resp \<and> ok resp \<and> json_body resp = Inr data \<longrightarrow>
         handleSubmit_home_steps h net fd hst ! 3
           = SetState (hst\<lparr>loading := True, error := None, prediction := data\<rparr>)
         \<and> handleSubmit_plain_steps h net fd st ! 3
           = SetState (st\<lparr>loading := True, error := None, prediction := data\<rparr>)
         \<and> prediction (handleSubmit_home h net fd hst) = data
         \<and> handleSubmit_plain h net fd st = st\<lparr>prediction := data, error := None, loading := False\<rparr>)
   \<and> length (handleSubmit_plain_steps h net fd st) = 5
   \<and> handleSubmit_plain_steps h net fd st ! 4 = SetState (handleSubmit_plain h net fd st)
   \<and> SetState (snd (handleSubmit_home_post h net fd hst)) \<in> set (handleSubmit_home_steps h net fd hst)
   \<and> last_state hst (handleSubmit_home_steps h net fd hst) = handleSubmit_home h net fd hst
   \<and> last_state st (handleSubmit_plain_steps h net fd st) = handleSubmit_plain h net fd st
   \<and> \<not> loading (snd (handleSubmit_home_post h net fd hst))
   \<and> \<not> loading (handleSubmit_home h net fd hst)
   \<and> \<not> loading (handleSubmit_plain h net fd st)
   \<and> handleSubmit_home h net fd hst = handleSubmit_home h net fd (submit_begin hst)
   \<and> handleSubmit_plain h net fd st = handleSubmit_plain h net fd (submit_begin st)"
proof -
  have a1: "take 3 (handleSubmit_home_steps h net fd hst) =
     [SetState (hst\<lparr>loading := True\<rparr>), SetState (hst\<lparr>loading := True, error := None\<rparr>),
      Fetch (predict_request fd)]"
    by (simp add: handleSubmit_home_steps_def Let_def)
  have a2: "take 3 (handleSubmit_plain_steps h net fd st) =
     [SetState (st\<lparr>loading := True\<rparr>), SetState (st\<lparr>loading := True, error := None\<rparr>),
      Fetch (predict_request fd)]"
    by (simp add: handleSubmit_plain_steps_def Let_def)
  have b: "handleSubmit_home h net fd hst = handleSubmit_home h net fd (submit_begin hst)"
    by (simp add: handleSubmit_home_def handleSubmit_home_post_def submit_begin_def)
  have c: "handleSubmit_plain h net fd st = handleSubmit_plain h net fd (submit_begin st)"
    by (simp add: handleSubmit_plain_def submit_begin_def)
  have d: "body (predict_request fd) = Some (JSON_stringify fd)"
    by (simp add: predict_request_def)
  have p: "JSON_parse_strings (JSON_stringify fd) =
       Some [(''base_currency'', base_currency fd), (''quote_currency'', quote_currency fd),
             (''timeframe'', FormData.timeframe fd), (''period'', FormData.period fd),
             (''api_key'', api_key fd)]"
    unfolding JSON_stringify_def by (rule JSON_parse_stringify) simp
  have e: "handleSubmit_home_steps h net fd hst ! 3
           = SetState (hst\<lparr>loading := True, error := None, prediction := data\<rparr>)
         \<and> handleSubmit_plain_steps h net fd st ! 3
           = SetState (st\<lparr>loading := True, error := None, prediction := data\<rparr>)
         \<and> prediction (handleSubmit_home h net fd hst) = data
         \<and> handleSubmit_plain h net fd st = st\<lparr>prediction := data, error := None, loading := False\<rparr>"
    if "net (predict_request fd) = Inr resp" "ok resp" "json_body resp = Inr data" for resp data
    using post_prediction_ok[of net "predict_request fd" resp data h] that
    by (auto simp: handleSubmit_home_def handleSubmit_home_post_def settle_keeps handleSubmit_plain_def
        handleSubmit_home_steps_def handleSubmit_plain_steps_def
        submit_begin_def fetchMarketMovers_begin_def Let_def)
  have l: "length (handleSubmit_plain_steps h net fd st) = 5"
    by (simp add: handleSubmit_plain_steps_def Let_def)
  have m: "handleSubmit_plain_steps h net fd st ! 4 = SetState (handleSubmit_plain h net fd st)"
    by (simp add: handleSubmit_plain_steps_def handleSubmit_plain_def submit_begin_def catch_error_def
        Let_def split: sum.splits)
  have f: "\<not> loading (snd (handleSubmit_home_post h net fd hst))"
    by (simp add: handleSubmit_home_post_def Let_def split: sum.splits prod.splits)
  have g: "\<not> loading (handleSubmit_home h net fd hst)"
    by (simp add: handleSubmit_home_def handleSubmit_home_post_def settle_keeps Let_def
        split: sum.splits prod.splits)
  have i: "\<not> loading (handleSubmit_plain h net fd st)"
    by (simp add: handleSubmit_plain_def Let_def)
  show ?thesis
    using a1 a2 b c d p JSON_stringify_form[of fd] e l m
      handleSubmit_home_finally[of h net fd hst] handleSubmit_home_last[of hst h net fd]
      handleSubmit_plain_last[of st h net fd] f g i
    by blast
qed

theorem submit_contract_witness:
  "take 3 (handleSubmit_plain_steps en_US_host (sample_network (JObj [(''prediction'', JStr ''UP'')]))
      initial_FormData_plain (initial_plain_state\<lparr>error := Some ''Failed to fetch''\<rparr>))
     = [SetState \<lparr>prediction = JNull, loading = True, error = Some ''Failed to fetch''\<rparr>,
        SetState \<lparr>prediction = JNull, loading = True, error = None\<rparr>,
        Fetch (predict_request initial_FormData_plain)]
   \<and> handleSubmit_plain_steps en_US_host (sample_network (JObj [(''prediction'', JStr ''UP'')]))
      initial_FormData_plain (initial_plain_state\<lparr>error := Some ''Failed to fetch''\<rparr>) ! 3
     = SetState \<lparr>prediction = JObj [(''prediction'', JStr ''UP'')], loading = True, error = None\<rparr>
   \<and> handleSubmit_plain_steps en_US_host (sample_network (JObj [(''prediction'', JStr ''UP'')]))
      initial_FormData_plain (initial_plain_state\<lparr>error := Some ''Failed to fetch''\<rparr>) ! 4
     = SetState \<lparr>prediction = JObj [(''prediction'', JStr ''UP'')], loading = False, error = None\<rparr>
   \<and> handleSubmit_plain en_US_host (sample_network (JObj [(''prediction'', JStr ''UP'')])) initial_FormData_plain
      (initial_plain_state\<lparr>error := Some ''Failed to fetch''\<rparr>)
     = \<lparr>prediction = JObj [(''prediction'', JStr ''UP'')], loading = False, error = None\<rparr>
   \<and> body (predict_request initial_FormData_plain) =
       Some (''{'' @ CHR 0x22 # ''base_currency'' @ CHR 0x22 # '':'' @ CHR 0x22 # ''BTC'' @ CHR 0x22
       # '','' @ CHR 0x22 # ''quote_currency'' @ CHR 0x22 # '':'' @ CHR 0x22 # ''USD'' @ CHR 0x22
       # '','' @ CHR 0x22 # ''timeframe'' @ CHR 0x22 # '':'' @ CHR 0x22 # ''daily'' @ CHR 0x22
       # '','' @ CHR 0x22 # ''period'' @ CHR 0x22 # '':'' @ CHR 0x22 # ''30'' @ CHR 0x22
       # '','' @ CHR 0x22 # ''api_key'' @ CHR 0x22 # '':'' @ CHR 0x22 # CHR 0x22 # ''}'')
   \<and> JSON_parse_strings (JSON_stringify initial_FormData_plain) =
       Some [(''base_currency'', ''BTC''), (''quote_currency'', ''USD''), (''timeframe'', ''daily''),
             (''period'', ''30''), (''api_key'', [])]"
proof -
  let ?net = "sample_network (JObj [(''prediction'', JStr ''UP'')])"
  let ?st = "initial_plain_state\<lparr>error := Some ''Failed to fetch''\<rparr>"
  let ?steps = "handleSubmit_plain_steps en_US_host ?net initial_FormData_plain ?st"
  have 1: "?net (predict_request initial_FormData_plain)
            = Inr \<lparr>ok = True, json_body = Inr (JObj [(''prediction'', JStr ''UP'')])\<rparr>"
    by (simp add: sample_network_def predict_request_def answer_def)
  have q: "QuoteJSONString ''BTC'' = CHR 0x22 # ''BTC'' @ [CHR 0x22]"
    "QuoteJSONString ''USD'' = CHR 0x22 # ''USD'' @ [CHR 0x22]"
    "QuoteJSONString ''daily'' = CHR 0x22 # ''daily'' @ [CHR 0x22]"
    "QuoteJSONString ''30'' = CHR 0x22 # ''30'' @ [CHR 0x22]"
    "QuoteJSONString [] = [CHR 0x22, CHR 0x22]"
    by code_simp+
  note T = submit_contract[of en_US_host ?net initial_FormData_plain initial_home_state ?st]
  from T have "\<forall>resp data. ?net (predict_request initial_FormData_plain) = Inr resp \<and> ok resp \<and> json_body resp = Inr data \<longrightarrow>
        ?steps ! 3 = SetState (?st\<lparr>loading := True, error := None, prediction := data\<rparr>)
        \<and> handleSubmit_plain en_US_host ?net initial_FormData_plain ?st
            = ?st\<lparr>prediction := data, error := None, loading := False\<rparr>"
    by blast
  from this[rule_format, of "\<lparr>ok = True, json_body = Inr (JObj [(''prediction'', JStr ''UP'')])\<rparr>"
      "JObj [(''prediction'', JStr ''UP'')]"] 1
  have 2: "?steps ! 3 = SetState (?st\<lparr>loading := True, error := None, prediction := JObj [(''prediction'', JStr ''UP'')]\<rparr>)"
    and 3: "handleSubmit_plain en_US_host ?net initial_FormData_plain ?st
      = ?st\<lparr>prediction := JObj [(''prediction'', JStr ''UP'')], error := None, loading := False\<rparr>"
    by simp_all
  from T have 4: "take 3 ?steps =
     [SetState (?st\<lparr>loading := True\<rparr>), SetState (?st\<lparr>loading := True, error := None\<rparr>),
      Fetch (predict_request initial_FormData_plain)]"
    and 6: "?steps ! 4 = SetState (handleSubmit_plain en_US_host ?net initial_FormData_plain ?st)"
    and 7: "body (predict_request initial_FormData_plain) = Some (JSON_stringify initial_FormData_plain)"
    and 8: "JSON_parse_strings (JSON_stringify initial_FormData_plain) =
       Some [(''base_currency'', base_currency initial_FormData_plain),
             (''quote_currency'', quote_currency initial_FormData_plain),
             (''timeframe'', FormData.timeframe initial_FormData_plain),
             (''period'', FormData.period initial_FormData_plain),
             (''api_key'', api_key initial_FormData_plain)]"
    by blast+
  show ?thesis
    unfolding 4 2 6 3 7 8
    by (simp add: initial_plain_state_def initial_FormData_plain_def JSON_stringify_form q)
qed

section \<open>Properties of the rendering\<close>

text \<open>
  C6: a forecast point whose direction is "UP" is shown with the upward arrow in
  green (and a green label where the table has one), one whose direction is "DOWN" with
  the downward arrow in red; the prediction card does the same with its trend icons.
\<close>

theorem direction_rendering:
  "(direction point = ''UP'' \<longrightarrow>
      ForecastTable_direction point = [Icon ArrowUp ''text-green-500'', Span ''ml-1 text-green-600'' ''UP'']
      \<and> ForecastTable_direction_yahoo point = [Icon ArrowUp ''text-green-500''])
   \<and> (direction point = ''DOWN'' \<longrightarrow>
      ForecastTable_direction point = [Icon ArrowDown ''text-red-500'', Span ''ml-1 text-red-600'' ''DOWN'']
      \<and> ForecastTable_direction_yahoo point = [Icon ArrowDown ''text-red-500''])
   \<and> (PredictionData.prediction p = ''UP'' \<longrightarrow>
      CryptoPrediction_direction p =
        [Icon TrendingUp ''h-6 w-6 text-green-500 mr-2'', Span ''text-2xl font-bold text-green-600'' ''UP''])
   \<and> (PredictionData.prediction p = ''DOWN'' \<longrightarrow>
      CryptoPrediction_direction p =
        [Icon TrendingDown ''h-6 w-6 text-red-500 mr-2'', Span ''text-2xl font-bold text-red-600'' ''DOWN''])"
  by (simp add: ForecastTable_direction_def ForecastTable_direction_yahoo_def CryptoPrediction_direction_def)

theorem direction_rendering_witness:
  "ForecastTable_direction (sample_point ''UP'' (1/2))
     = [Icon ArrowUp ''text-green-500'', Span ''ml-1 text-green-600'' ''UP'']
   \<and> ForecastTable_direction (sample_point ''DOWN'' (1/2))
     = [Icon ArrowDown ''text-red-500'', Span ''ml-1 text-red-600'' ''DOWN'']"
  using direction_rendering[of "sample_point ''UP'' (1/2)"] direction_rendering[of "sample_point ''DOWN'' (1/2)"]
  by (simp add: sample_point_def)

lemma String_includes_sublist: "String_includes s t = sublist t s"
  by (induction s) (auto simp: sublist_Cons_right)

text \<open>
  C2, as the code has it. The claim gives every signal string a style, the neutral one
  when nothing matches. The badge is rendered under \<^verbatim>\<open>signal &&\<close>: for the empty
  string, which matches nothing, there is no badge at all, so no neutral style either.
\<close>

theorem empty_signal_has_no_badge:
  "IndicatorCard_badge (Some '''')
     \<noteq> Some (Span ''text-sm font-medium px-2 py-1 rounded bg-gray-100 text-gray-800'' '''')"
  by (simp add: IndicatorCard_badge_def)

text \<open>
  C2, amended: for every non-empty signal string \<open>s\<close> the badge has the positive
  (green) classes if the lowercased \<open>s\<close> contains "bull" or "strong" or \<open>s\<close> is exactly
  "Overbought"; otherwise the negative (red) classes if the lowercased \<open>s\<close> contains
  "bear" or "weak" or \<open>s\<close> is exactly "Oversold"; otherwise the neutral (gray) classes.
  For an empty or absent signal no badge is rendered.
\<close>

theorem signal_badge_classification:
  "(s \<noteq> [] \<longrightarrow>
      IndicatorCard_badge (Some s) =
        Some (Span (''text-sm font-medium px-2 py-1 rounded '' @
          (if sublist ''bull'' (toLowerCase s) \<or> sublist ''strong'' (toLowerCase s) \<or> s = ''Overbought''
           then ''bg-green-100 text-green-800''
           else if sublist ''bear'' (toLowerCase s) \<or> sublist ''weak'' (toLowerCase s) \<or> s = ''Oversold''
           then ''bg-red-100 text-red-800''
           else ''bg-gray-100 text-gray-800'')) s))
   \<and> IndicatorCard_badge (Some []) = None
   \<and> IndicatorCard_badge None = None"
  by (simp add: IndicatorCard_badge_def signal_class_def String_includes_sublist)

lemma toLowerCase_examples:
  "toLowerCase ''Bearish Weak'' = ''bearish weak''"
  "toLowerCase ''bullish trend'' = ''bullish trend''"
  "toLowerCase ''Overbought'' = ''overbought''"
  "toLowerCase ''Oversold'' = ''oversold''"
  "toLowerCase ''Neutral'' = ''neutral''"
  by code_simp+

theorem signal_badge_classification_witness:
  "IndicatorCard_badge (Some ''Bearish Weak'')
     = Some (Span ''text-sm font-medium px-2 py-1 rounded bg-red-100 text-red-800'' ''Bearish Weak'')
   \<and> IndicatorCard_badge (Some ''bullish trend'')
     = Some (Span ''text-sm font-medium px-2 py-1 rounded bg-green-100 text-green-800'' ''bullish trend'')
   \<and> IndicatorCard_badge (Some ''Overbought'')
     = Some (Span ''text-sm font-medium px-2 py-1 rounded bg-green-100 text-green-800'' ''Overbought'')
   \<and> IndicatorCard_badge (Some ''Oversold'')
     = Some (Span ''text-sm font-medium px-2 py-1 rounded bg-red-100 text-red-800'' ''Oversold'')
   \<and> IndicatorCard_badge (Some ''Neutral'')
     = Some (Span ''text-sm font-medium px-2 py-1 rounded bg-gray-100 text-gray-800'' ''Neutral'')"
  using signal_badge_classification[of "''Bearish Weak''"] signal_badge_classification[of "''bullish trend''"]
    signal_badge_classification[of "''Overbought''"] signal_badge_classification[of "''Oversold''"]
    signal_badge_classification[of "''Neutral''"]
  by (simp add: toLowerCase_examples sublist_code)

lemma formatDate_never_catches:
  "8 \<le> length s \<Longrightarrow>
   formatDate h s = (case toLocaleDateString h (Date_new h (substring s 0 4 @ ''-'' @ substring s 4 6 @ ''-'' @ substring s 6 8)) of Inr r \<Rightarrow> r | Inl e \<Rightarrow> s)"
  by (auto simp: formatDate_def formatDate_try_def Let_def)

text \<open>
  What \<^verbatim>\<open>formatDate\<close> does on the other inputs: a string shorter than eight characters
  gives "N/A"; eight characters that make a date give the locale's rendering of that day,
  or of the day before where the local time zone is behind UTC (the date-only string is
  parsed as midnight UTC and rendered in local time).
\<close>

lemma formatDate_short: "length s < 8 \<Longrightarrow> formatDate h s = ''N/A''"
  by (simp add: formatDate_def)

lemma formatDate_valid_date:
  assumes "8 \<le> length s"
    and "iso_date (substring s 0 4 @ ''-'' @ substring s 4 6 @ ''-'' @ substring s 6 8) = Some (y, m, d)"
  shows "formatDate h s =
     (if behind_utc h then (case previous_day y m d of (y', m', d') \<Rightarrow> loc_date h y' m' d')
      else loc_date h y m d)"
  using assms
  by (simp add: formatDate_never_catches Date_new_def toLocaleDateString_def split: prod.splits)

lemma formatDate_examples:
  "formatDate en_US_host ''20250224T231000'' = ''2/24/2025''"
  "formatDate (en_US_host\<lparr>behind_utc := True\<rparr>) ''20250224T231000'' = ''2/23/2025''"
  "formatDate en_US_host ''2025'' = ''N/A''"
  by code_simp+

text \<open>
  C3, where the code departs from it: \<^verbatim>\<open>new Date\<close> and \<^verbatim>\<open>toLocaleDateString\<close> do not
  throw, so the \<^verbatim>\<open>catch\<close> branch that would return the raw string is never taken. For
  every input of eight or more characters whose first eight do not make a date, the
  result is the text "Invalid Date".
\<close>

theorem formatDate_invalid_date:
  assumes "8 \<le> length s"
    and "Date_new h (substring s 0 4 @ ''-'' @ substring s 4 6 @ ''-'' @ substring s 6 8) = InvalidDate"
  shows "formatDate h s = ''Invalid Date''"
  using assms by (simp add: formatDate_never_catches toLocaleDateString_def)

theorem formatDate_invalid_date_witness:
  "formatDate en_US_host ''abcdefgh'' = ''Invalid Date'' \<and> formatDate en_US_host ''abcdefgh'' \<noteq> ''abcdefgh''"
proof -
  have "Date_new en_US_host (substring ''abcdefgh'' 0 4 @ ''-'' @ substring ''abcdefgh'' 4 6 @ ''-'' @ substring ''abcdefgh'' 6 8) = InvalidDate"
    by (simp add: Date_new_def substring_def iso_date_def is_digit_def en_US_host_def)
  from formatDate_invalid_date[OF _ this] show ?thesis by simp
qed

section \<open>Properties of the number formatting\<close>

lemma show_nat_small: "n < 10 \<Longrightarrow> show_nat n = [digit_char n]"
  by (simp add: show_nat.simps)

lemma show_nat_large: "10 \<le> n \<Longrightarrow> show_nat n = show_nat (n div 10) @ [digit_char (n mod 10)]"
  by (subst show_nat.simps) simp

lemma digit_char_0: "digit_char 0 = CHR ''0''"
  by code_simp

lemma length_show_nat_pos: "0 < length (show_nat n)"
  by (subst show_nat.simps) simp

lemma length_show_nat_le1: "(length (show_nat n) \<le> Suc 0) = (n < 10)"
proof (cases "n < 10")
  case True then show ?thesis by (simp add: show_nat_small)
next
  case False
  then have "show_nat n = show_nat (n div 10) @ [digit_char (n mod 10)]" by (simp add: show_nat_large)
  with False length_show_nat_pos[of "n div 10"] show ?thesis by simp
qed

lemma fraction_point_1:
  "fraction_point 1 (show_nat n) = show_nat (n div 10) @ ''.'' @ [digit_char (n mod 10)]"
proof (cases "n < 10")
  case True
  then show ?thesis by (simp add: fraction_point_def show_nat_small Let_def digit_char_0)
next
  case False
  then have "\<not> length (show_nat n) \<le> Suc 0" by (simp add: length_show_nat_le1)
  moreover have "show_nat n = show_nat (n div 10) @ [digit_char (n mod 10)]"
    using False by (simp add: show_nat_large)
  ultimately show ?thesis by (simp add: fraction_point_def Let_def)
qed

lemma toFixed_1:
  assumes "0 \<le> x" "x < 10 ^ 21"
  shows "toFixed h 1 x = tenths_numeral (nat \<lfloor>x * 10 + 1 / 2\<rfloor>)"
proof -
  from assms have "\<not> x < 0" "\<bar>x\<bar> = x" "\<not> 10 ^ 21 \<le> x" by simp_all
  then show ?thesis
    using fraction_point_1[of "nat \<lfloor>x * 10 + 1 / 2\<rfloor>"]
    by (simp add: toFixed_def tenths_numeral_def Let_def)
qed

lemma round_half_even_bounds: "0 \<le> q \<Longrightarrow> 0 \<le> round_half_even q \<and> of_int (round_half_even q) \<le> q + 1"
proof -
  assume "0 \<le> q"
  then have 0: "0 \<le> \<lfloor>q\<rfloor>" by simp
  have 1: "\<lfloor>q\<rfloor> \<le> round_half_even q" "round_half_even q \<le> \<lfloor>q\<rfloor> + 1"
    by (simp_all add: round_half_even_def Let_def)
  from 1(2) have "(of_int (round_half_even q) :: rat) \<le> of_int (\<lfloor>q\<rfloor> + 1)"
    by (simp only: of_int_le_iff)
  also have "\<dots> \<le> q + 1" by simp
  finally have hi: "(of_int (round_half_even q) :: rat) \<le> q + 1" .
  from 0 1(1) have "0 \<le> round_half_even q" by linarith
  with hi show ?thesis by blast
qed

lemma ilog2_le:
  assumes "0 < x" "x \<le> 100"
  shows "ilog2 x \<le> 7"
proof -
  obtain a b where q: "quotient_of x = (a, b)" by (cases "quotient_of x")
  then have b: "0 < b" by (rule quotient_of_denom_pos)
  from q have x: "x = of_int a / of_int b" by (rule quotient_of_div)
  with assms b have a: "0 < a" by (simp add: zero_less_divide_iff)
  from assms(2) x b have "of_int a \<le> (100 :: rat) * of_int b" by (simp add: pos_divide_le_eq)
  then have "a \<le> 100 * b" by (metis of_int_le_iff of_int_mult of_int_numeral)
  also have "\<dots> < 128 * 2 ^ nat (bitlen b)"
    using bitlen_bounds[OF b] b by linarith
  finally have "a < 2 ^ nat (bitlen b + 7)"
    using bitlen_nonneg[of b] by (simp add: nat_add_distrib power_add mult.commute)
  then have "bitlen a \<le> bitlen b + 7"
    using bitlen_nonneg[of b] by (simp add: bitlen_le_iff_power)
  then show ?thesis by (simp add: ilog2_def q Let_def)
qed

lemma fl_bounds:
  assumes "0 \<le> x" "x \<le> 100"
  shows "0 \<le> fl x \<and> fl x < 10 ^ 21"
proof (cases "x = 0")
  case True then show ?thesis by (simp add: fl_def)
next
  case False
  with assms have pos: "0 < x" by simp
  define u :: rat where "u = 2 powi (max (ilog2 \<bar>x\<bar>) (- 1022) - 52)"
  have u: "0 < u" by (simp add: u_def)
  have "max (ilog2 \<bar>x\<bar>) (- 1022) - 52 \<le> 0" using ilog2_le[of x] pos assms(2) by simp
  then have "(2::rat) powi (max (ilog2 \<bar>x\<bar>) (- 1022) - 52) \<le> 2 powi 0"
    by (intro power_int_increasing) simp_all
  then have u1: "u \<le> 1" unfolding u_def by simp
  have q: "0 \<le> \<bar>x\<bar> / u" using u by simp
  have fl: "fl x = of_int (round_half_even (\<bar>x\<bar> / u)) * u"
    using pos by (simp add: fl_def u_def Let_def)
  from round_half_even_bounds[OF q]
  have lo: "0 \<le> round_half_even (\<bar>x\<bar> / u)" and hi: "of_int (round_half_even (\<bar>x\<bar> / u)) \<le> \<bar>x\<bar> / u + 1"
    by simp_all
  from hi u have "of_int (round_half_even (\<bar>x\<bar> / u)) * u \<le> (\<bar>x\<bar> / u + 1) * u"
    by (simp add: mult_right_mono)
  also have "\<dots> = \<bar>x\<bar> + u" using u by (simp add: field_simps)
  also have "\<dots> \<le> 101" using u1 assms by simp
  finally have "fl x \<le> 101" by (simp add: fl)
  moreover have "0 \<le> fl x" using lo u by (simp add: fl)
  ultimately show ?thesis by simp
qed

lemma round_half_even_error: "\<bar>of_int (round_half_even q) - q\<bar> \<le> 1 / 2"
proof -
  have "of_int \<lfloor>q\<rfloor> \<le> q" "q < of_int \<lfloor>q\<rfloor> + 1" by linarith+
  then show ?thesis
    by (auto simp: round_half_even_def Let_def abs_le_iff)
qed

lemma fl_error:
  assumes "0 \<le> x" "x \<le> 100"
  shows "\<bar>fl x - x\<bar> \<le> 1 / 2 ^ 46"
proof (cases "x = 0")
  case True then show ?thesis by (simp add: fl_def)
next
  case False
  with assms have pos: "0 < x" by simp
  define u :: rat where "u = 2 powi (max (ilog2 \<bar>x\<bar>) (- 1022) - 52)"
  have u: "0 < u" by (simp add: u_def)
  have "max (ilog2 \<bar>x\<bar>) (- 1022) - 52 \<le> - 45" using ilog2_le[of x] pos assms(2) by simp
  then have "(2::rat) powi (max (ilog2 \<bar>x\<bar>) (- 1022) - 52) \<le> 2 powi (- 45)"
    by (intro power_int_increasing) simp_all
  then have u1: "u \<le> 1 / 2 ^ 45" unfolding u_def by (simp add: power_int_minus_divide)
  have fl: "fl x = of_int (round_half_even (x / u)) * u"
    using pos by (simp add: fl_def u_def Let_def)
  have "fl x - x = (of_int (round_half_even (x / u)) - x / u) * u"
    using u by (simp add: fl field_simps)
  then have "\<bar>fl x - x\<bar> = \<bar>of_int (round_half_even (x / u)) - x / u\<bar> * u"
    using u by (simp add: abs_mult)
  also have "\<dots> \<le> 1 / 2 * u"
    using round_half_even_error[of "x / u"] u by (intro mult_right_mono) simp_all
  also have "\<dots> \<le> 1 / 2 * (1 / 2 ^ 45)" using u1 by simp
  finally show ?thesis by simp
qed

lemma nearest_tenth:
  assumes "0 \<le> (y::rat)"
  shows "of_nat (nat \<lfloor>y * 10 + 1 / 2\<rfloor>) / 10 - 1 / 20 \<le> y
       \<and> y < of_nat (nat \<lfloor>y * 10 + 1 / 2\<rfloor>) / 10 + 1 / 20"
proof -
  define m where "m = \<lfloor>y * 10 + 1 / 2\<rfloor>"
  have nn: "0 \<le> m" using assms by (simp add: m_def)
  have "of_int m \<le> y * 10 + 1 / 2" "y * 10 + 1 / 2 < of_int m + 1"
    unfolding m_def by linarith+
  moreover have "(of_nat (nat m) :: rat) = of_int m"
    using nn by simp
  ultimately have "of_nat (nat m) / 10 - 1 / 20 \<le> y \<and> y < of_nat (nat m) / 10 + 1 / 20"
    by (simp only:) linarith
  then show ?thesis by (simp only: m_def)
qed

lemma Number_mul_percent_range:
  assumes "0 \<le> p" "p \<le> 1"
  shows "0 \<le> Number_mul p 100 \<and> Number_mul p 100 < 10 ^ 21"
  unfolding Number_mul_def using assms by (intro fl_bounds) simp_all

lemma percent_string:
  assumes "0 \<le> p" "p \<le> 1"
  shows "toFixed h (Suc 0) (Number_mul p 100) = tenths_numeral (nat \<lfloor>Number_mul p 100 * 10 + 1 / 2\<rfloor>)"
  using Number_mul_percent_range[OF assms] toFixed_1[of "Number_mul p 100" h]
  by (simp add: tenths_numeral_def Let_def)

text \<open>
  C5: for every probability \<open>p\<close> in \<open>[0, 1]\<close> the rendered percentage is the numeral,
  with exactly one fraction digit, of the tenth nearest to \<open>p * 100\<close> as the engine
  computes that product (the larger tenth on a tie), followed by the percent sign; the
  computed product differs from the exact one by at most \<open>2\<^sup>-\<^sup>4\<^sup>6\<close>. This holds for the
  confidence of a forecast point, the upward and downward probabilities and the accuracy.
\<close>

theorem percentage_rendering:
  assumes "0 \<le> p" "p \<le> 1"
  shows "\<exists>n. of_nat n / 10 - 1 / 20 \<le> Number_mul p 100 \<and> Number_mul p 100 < of_nat n / 10 + 1 / 20
       \<and> \<bar>Number_mul p 100 - p * 100\<bar> \<le> 1 / 2 ^ 46
       \<and> (probability point = p \<longrightarrow> ForecastTable_confidence h point = tenths_numeral n @ ''%'')
       \<and> (probability_up pd = p \<longrightarrow> CryptoPrediction_upward h pd = tenths_numeral n @ ''%'')
       \<and> (probability_down pd = p \<longrightarrow> CryptoPrediction_downward h pd = tenths_numeral n @ ''%'')
       \<and> (accuracy pd = p \<longrightarrow>
            CryptoPrediction_accuracy h pd = tenths_numeral n @ ''% accuracy on historical predictions'')"
proof -
  define n where "n = nat \<lfloor>Number_mul p 100 * 10 + 1 / 2\<rfloor>"
  have e: "\<bar>Number_mul p 100 - p * 100\<bar> \<le> 1 / 2 ^ 46"
    unfolding Number_mul_def using assms by (intro fl_error) simp_all
  from Number_mul_percent_range[OF assms] have "0 \<le> Number_mul p 100" by simp
  from nearest_tenth[OF this]
  have a: "of_nat n / 10 - 1 / 20 \<le> Number_mul p 100 \<and> Number_mul p 100 < of_nat n / 10 + 1 / 20"
    by (simp only: n_def)
  have b: "toFixed h (Suc 0) (Number_mul p 100) = tenths_numeral n"
    using percent_string[OF assms, of h] by (simp only: n_def)
  have c: "(probability point = p \<longrightarrow> ForecastTable_confidence h point = tenths_numeral n @ ''%'')
       \<and> (probability_up pd = p \<longrightarrow> CryptoPrediction_upward h pd = tenths_numeral n @ ''%'')
       \<and> (probability_down pd = p \<longrightarrow> CryptoPrediction_downward h pd = tenths_numeral n @ ''%'')
       \<and> (accuracy pd = p \<longrightarrow>
            CryptoPrediction_accuracy h pd = tenths_numeral n @ ''% accuracy on historical predictions'')"
    by (simp add: ForecastTable_confidence_def CryptoPrediction_upward_def CryptoPrediction_downward_def
          CryptoPrediction_accuracy_def b)
  from a e c show ?thesis by blast
qed

lemma sample_probability_facts:
  "0 \<le> sample_probability" "sample_probability \<le> 1"
  "823 / 10 - 1 / 20 \<le> Number_mul sample_probability 100"
  "Number_mul sample_probability 100 < 823 / 10 + 1 / 20"
  "tenths_numeral 823 = ''82.3''"
  by code_simp+

theorem percentage_rendering_witness:
  "ForecastTable_confidence en_US_host (sample_point ''UP'' sample_probability) = ''82.3%''"
proof -
  have pr: "probability (sample_point ''UP'' sample_probability) = sample_probability"
    by (simp add: sample_point_def)
  from percentage_rendering[OF sample_probability_facts(1,2), of "sample_point ''UP'' sample_probability" en_US_host] pr
  obtain n where n: "of_nat n / 10 - 1 / 20 \<le> Number_mul sample_probability 100"
      "Number_mul sample_probability 100 < of_nat n / 10 + 1 / 20"
      "ForecastTable_confidence en_US_host (sample_point ''UP'' sample_probability) = tenths_numeral n @ ''%''"
    by blast
  from n(1) sample_probability_facts(4) have "(of_nat n :: rat) < of_nat 824" by simp
  then have "n < 824" by (simp only: of_nat_less_iff)
  moreover from n(2) sample_probability_facts(3) have "(of_nat 822 :: rat) < of_nat n" by simp
  then have "822 < n" by (simp only: of_nat_less_iff)
  ultimately have "n = 823" by simp
  with n(3) show ?thesis by (simp add: sample_probability_facts(5))
qed




lemma strip_zeros_full: "length fr \<le> mn \<Longrightarrow> strip_zeros mn fr = fr"
  by (simp add: strip_zeros_def)

lemma digit_char_eq_0: "a < 10 \<Longrightarrow> (digit_char a = CHR ''0'') = (a = 0)"
proof
  assume a: "a < 10" and "digit_char a = CHR ''0''"
  then have "(of_char (digit_char a) :: nat) = of_char CHR ''0''" by simp
  with a show "a = 0" by (simp add: digit_char_def)
qed (simp add: digit_char_0)


lemma last_digits_0: "last_digits j 0 = replicate j CHR ''0''"
  by (induction j) (simp_all add: digit_char_0 replicate_append_same)



lemma pad_last_digits:
  "0 < j \<Longrightarrow> m < 10 ^ j \<Longrightarrow>
   replicate (j - length (show_nat m)) CHR ''0'' @ show_nat m = last_digits j m"
proof (induction j arbitrary: m)
  case 0
  then show ?case by simp
next
  case (Suc j)
  show ?case
  proof (cases "m < 10")
    case True
    then show ?thesis by (simp add: show_nat_small last_digits_0)
  next
    case False
    then have l: "show_nat m = show_nat (m div 10) @ [digit_char (m mod 10)]" by (simp add: show_nat_large)
    from False Suc.prems have j: "0 < j" by (cases j) auto
    from Suc.prems have "m div 10 < 10 ^ j" by (simp add: div_less_iff_less_mult mult.commute)
    from Suc.IH[OF j this] show ?thesis by (simp add: l)
  qed
qed

lemma show_nat_shift: "0 < s \<Longrightarrow> show_nat (s * 10 ^ j) = show_nat s @ replicate j CHR ''0''"
proof (induction j)
  case 0
  then show ?case by simp
next
  case (Suc j)
  then have "10 \<le> s * 10 ^ j * 10" by simp
  from show_nat_large[OF this] Suc
  have "show_nat (s * 10 ^ j * 10) = show_nat s @ replicate (Suc j) CHR ''0''"
    by (simp add: digit_char_0 replicate_append_same)
  moreover have "s * 10 ^ Suc j = s * 10 ^ j * 10" by simp
  ultimately show ?case by (simp only:)
qed

lemma digit_triple:
  "m < 1000 \<Longrightarrow> last_digits 3 m = [digit_char (m div 100), digit_char (m div 10 mod 10), digit_char (m mod 10)]"
proof -
  assume "m < 1000"
  then have "m div 10 div 10 mod 10 = m div 100" by (simp add: div_mult2_eq[symmetric])
  then show ?thesis by (simp add: numeral_3_eq_3)
qed

lemma strip_zeros_3:
  assumes "a < 10" "b < 10" "c < 10"
  shows "strip_zeros 0 [digit_char a, digit_char b, digit_char c] =
     (if c \<noteq> 0 then [digit_char a, digit_char b, digit_char c]
      else if b \<noteq> 0 then [digit_char a, digit_char b]
      else if a \<noteq> 0 then [digit_char a] else [])"
  using assms by (simp add: strip_zeros_def digit_char_eq_0)

text \<open>
  With two fraction digits required and allowed, \<^verbatim>\<open>toLocaleString\<close> gives the
  two-decimal format.
\<close>

lemma toLocaleString_2_2: "toLocaleString h 2 2 x = two_decimals h x"
proof -
  define n where "n = nat \<lfloor>shortest_decimal h x * 100 + 1 / 2\<rfloor>"
  have "n mod 100 < 100" by simp
  then have "replicate (2 - length (show_nat (n mod 100))) CHR ''0'' @ show_nat (n mod 100)
        = last_digits 2 (n mod 100)"
    by (simp add: pad_last_digits)
  moreover have "n mod 100 div 10 = n div 10 mod 10"
    using div_mult2_eq[of n 10 10] mod_mult2_eq[of n 10 10] by simp
  moreover have "n mod 100 mod 10 = n mod 10" by (simp add: mod_mod_cancel)
  ultimately have fr: "replicate (2 - length (show_nat (n mod 100))) CHR ''0'' @ show_nat (n mod 100)
        = [digit_char (n div 10 mod 10), digit_char (n mod 10)]"
    by (simp add: numeral_2_eq_2)
  show ?thesis
    unfolding toLocaleString_def two_decimals_def Let_def n_def[symmetric]
    by (simp add: fr strip_zeros_full n_def[symmetric])
qed

text \<open>Without options it gives the default format.\<close>

lemma toLocaleString_0_3: "toLocaleString h 0 3 x = up_to_three_decimals h x"
proof -
  define n where "n = nat \<lfloor>shortest_decimal h x * 1000 + 1 / 2\<rfloor>"
  define m where "m = n mod 1000"
  have m: "m < 1000" by (simp add: m_def)
  have e1: "n mod 1000 = 100 * (n div 100 mod 10) + n mod 100"
    using mod_mult2_eq[of n 100 10] by simp
  have e2: "n mod 1000 = 10 * (n div 10 mod 100) + n mod 10"
    using mod_mult2_eq[of n 10 100] by simp
  have e3: "n mod 100 = 10 * (n div 10 mod 10) + n mod 10"
    using mod_mult2_eq[of n 10 10] by simp
  have d1: "m div 100 = n div 100 mod 10"
    unfolding m_def e1 by simp
  have "m div 10 = n div 10 mod 100"
    unfolding m_def e2 by simp
  then have d2: "m div 10 mod 10 = n div 10 mod 10"
    by (simp add: mod_mod_cancel)
  have d3: "m mod 10 = n mod 10"
    unfolding m_def by (simp add: mod_mod_cancel)
  note d = d1 d2 d3
  have z2: "(n mod 100 = 0) = (n div 10 mod 10 = 0 \<and> n mod 10 = 0)"
    unfolding e3 by simp
  have z1: "(n mod 1000 = 0) = (n div 100 mod 10 = 0 \<and> n div 10 mod 10 = 0 \<and> n mod 10 = 0)"
    unfolding e1 z2[symmetric] by simp
  note z = z1 z2
  have "replicate (3 - length (show_nat m)) CHR ''0'' @ show_nat m
        = [digit_char (m div 100), digit_char (m div 10 mod 10), digit_char (m mod 10)]"
    using pad_last_digits[of 3 m] m digit_triple[OF m] by simp
  then have fr: "replicate (3 - length (show_nat (n mod 1000))) CHR ''0'' @ show_nat (n mod 1000)
        = [digit_char (n div 100 mod 10), digit_char (n div 10 mod 10), digit_char (n mod 10)]"
    unfolding d unfolding m_def .
  have s: "strip_zeros 0 [digit_char (n div 100 mod 10), digit_char (n div 10 mod 10), digit_char (n mod 10)]
       = (if n mod 1000 = 0 then []
          else if n mod 100 = 0 then [digit_char (n div 100 mod 10)]
          else if n mod 10 = 0 then [digit_char (n div 100 mod 10), digit_char (n div 10 mod 10)]
          else [digit_char (n div 100 mod 10), digit_char (n div 10 mod 10), digit_char (n mod 10)])"
    by (simp add: strip_zeros_3 z)
  show ?thesis
    unfolding toLocaleString_def up_to_three_decimals_def Let_def
    by (simp add: n_def[symmetric] fr s)
qed

text \<open>A number written as a whole number has no fraction in the default format.\<close>

lemma toLocaleString_default_whole:
  assumes "shortest_decimal h x = of_nat k"
  shows "toLocaleString_default h x = (if x < 0 then loc_minus h else []) @ loc_group h (show_nat k)"
proof -
  have "\<lfloor>(of_nat k :: rat) * 1000 + 1 / 2\<rfloor> = int (k * 1000)"
    by (rule floor_unique) simp_all
  then have n: "nat \<lfloor>shortest_decimal h x * 1000 + 1 / 2\<rfloor> = k * 1000"
    by (simp add: assms)
  show ?thesis
    unfolding toLocaleString_default_def toLocaleString_0_3 up_to_three_decimals_def Let_def n
    by simp
qed

text \<open>
  \<^verbatim>\<open>Number::toString\<close> of a positive number below \<open>10\<^sup>2\<^sup>1\<close>: when the point falls behind the
  digits, the decimal numeral of the whole number they denote; when it falls between
  them, the numeral of the integer part, a point, and the remaining digits.
\<close>

lemma Number_toString_whole:
  assumes "0 < x" "shortest_digits h x = (s, n)" "0 < s"
    "int (length (show_nat s)) \<le> n" "n \<le> 21"
  shows "Number_toString h x = show_nat (s * 10 ^ nat (n - int (length (show_nat s))))"
  using assms by (simp add: Number_toString_def Let_def show_nat_shift)



subsection \<open>The sample host on sample numbers\<close>

lemma digit_chars:
  "digit_char 0 = CHR ''0''" "digit_char (Suc 0) = CHR ''1''" "digit_char 2 = CHR ''2''"
  "digit_char 3 = CHR ''3''" "digit_char 4 = CHR ''4''" "digit_char 5 = CHR ''5''"
  "digit_char 6 = CHR ''6''" "digit_char 7 = CHR ''7''" "digit_char 8 = CHR ''8''"
  "digit_char 9 = CHR ''9''"
  by code_simp+

lemma show_nat_1234: "show_nat 1234 = ''1234''" "show_nat 12345 = ''12345''"
  by (simp_all add: show_nat.simps digit_chars)

lemma show_nat_more:
  "show_nat 1005 = ''1005''" "show_nat 10005 = ''10005''"
  "show_nat 18446744073709552 = ''18446744073709552''"
  "show_nat 18446744073709552000 = ''18446744073709552000''"
  by (simp_all add: show_nat.simps digit_chars)


lemma group_more:
  "group_thousands '','' ''18446744073709552000'' = ''18,446,744,073,709,552,000''"
  "group_thousands '','' ''1'' = ''1''"
  by code_simp+

text \<open>The digits of 1234, of 1234.5, of the numbers written 1.005 and 1.0005, and of \<open>2\<^sup>6\<^sup>4\<close>.\<close>

lemma sample_digits:
  "shortest_digits en_US_host 1234 = (1234, 4)"
  "shortest_digits en_US_host (2469 / 2) = (12345, 4)"
  "shortest_digits en_US_host sample_half_cent = (1005, 1)"
  "shortest_digits en_US_host sample_half_mill = (10005, 1)"
  "shortest_digits en_US_host 18446744073709551616 = (18446744073709552, 20)"
proof -
  have "ecma_digits 1234 = (1234, 4)" "ecma_digits (12345 / 10) = (12345, 4)"
    "ecma_digits sample_half_cent = (1005, 1)" "ecma_digits sample_half_mill = (10005, 1)"
    "ecma_digits (2 ^ 64) = (18446744073709552, 20)"
    by code_simp+
  then show "shortest_digits en_US_host 1234 = (1234, 4)"
    "shortest_digits en_US_host (2469 / 2) = (12345, 4)"
    "shortest_digits en_US_host sample_half_cent = (1005, 1)"
    "shortest_digits en_US_host sample_half_mill = (10005, 1)"
    "shortest_digits en_US_host 18446744073709551616 = (18446744073709552, 20)"
    by (simp_all add: en_US_host_def)
qed

lemma sample_positive: "0 < sample_half_cent" "0 < sample_half_mill"
  by code_simp+

lemma sample_decimals:
  "shortest_decimal en_US_host 1234 = of_nat 1234"
  "shortest_decimal en_US_host (12345 / 10) = 12345 / 10"
  "shortest_decimal en_US_host sample_half_cent = 1005 / 1000"
  "shortest_decimal en_US_host sample_half_mill = 10005 / 10000"
  "shortest_decimal en_US_host (2 ^ 64) = of_nat 18446744073709552000"
proof -
  have "sample_half_cent \<noteq> 0" "\<bar>sample_half_cent\<bar> = sample_half_cent"
    "sample_half_mill \<noteq> 0" "\<bar>sample_half_mill\<bar> = sample_half_mill"
    using sample_positive by simp_all
  then show "shortest_decimal en_US_host sample_half_cent = 1005 / 1000"
    "shortest_decimal en_US_host sample_half_mill = 10005 / 10000"
    by (simp_all add: shortest_decimal_def sample_digits show_nat_more)
  show "shortest_decimal en_US_host 1234 = of_nat 1234"
    "shortest_decimal en_US_host (12345 / 10) = 12345 / 10"
    "shortest_decimal en_US_host (2 ^ 64) = of_nat 18446744073709552000"
    by (simp_all add: shortest_decimal_def sample_digits show_nat_1234 show_nat_more)
qed

lemma two_decimals_en_US:
  assumes "0 \<le> x" "\<lfloor>shortest_decimal en_US_host x * 100 + 1 / 2\<rfloor> = int n"
  shows "two_decimals en_US_host x =
     group_thousands '','' (show_nat (n div 100)) @ ''.'' @ [digit_char (n div 10 mod 10), digit_char (n mod 10)]"
  using assms by (simp add: two_decimals_def en_US_host_def Let_def)


text \<open>
  Where the decimal a number is written as and its binary value round differently, and
  where the digits are fewer than those of the exact value: the number written 1.005
  (slightly below it in binary64) has the two-decimal format 1.01, the number written
  1.0005 has the default format 1.001, and \<open>2\<^sup>6\<^sup>4\<close>, whose exact numeral ends in 551616,
  is written with the seventeen digits that identify it and zeros.
\<close>

lemma engine_examples:
  "toLocaleString en_US_host 2 2 sample_half_cent = ''1.01''"
  "toLocaleString_default en_US_host sample_half_mill = ''1.001''"
  "Number_toString en_US_host (2 ^ 64) = ''18446744073709552000''"
  "toLocaleString_default en_US_host (2 ^ 64) = ''18,446,744,073,709,552,000''"
proof -
  have f: "\<lfloor>shortest_decimal en_US_host sample_half_cent * 100 + 1 / 2\<rfloor> = int 101"
    unfolding sample_decimals by (rule floor_unique) simp_all
  show "toLocaleString en_US_host 2 2 sample_half_cent = ''1.01''"
    unfolding toLocaleString_2_2
    using two_decimals_en_US[OF _ f] sample_positive(1)
    by (simp add: show_nat_small group_more digit_chars)
  have g: "nat \<lfloor>shortest_decimal en_US_host sample_half_mill * 1000 + 1 / 2\<rfloor> = 1001"
  proof -
    have "\<lfloor>shortest_decimal en_US_host sample_half_mill * 1000 + 1 / 2\<rfloor> = 1001"
      unfolding sample_decimals by (rule floor_unique) simp_all
    then show ?thesis by simp
  qed
  show "toLocaleString_default en_US_host sample_half_mill = ''1.001''"
    unfolding toLocaleString_default_def toLocaleString_0_3 up_to_three_decimals_def Let_def g
    using sample_positive(2)
    by (simp add: show_nat_small group_more digit_chars en_US_host_def)
  show "Number_toString en_US_host (2 ^ 64) = ''18446744073709552000''"
    using Number_toString_whole[OF _ sample_digits(5)]
    by (simp add: show_nat_more)
  show "toLocaleString_default en_US_host (2 ^ 64) = ''18,446,744,073,709,552,000''"
    using toLocaleString_default_whole[OF sample_decimals(5)]
    by (simp add: show_nat_more group_more en_US_host_def)
qed




end
